theory Spec2Isabelle
  imports Complex_Main "HOL-Library.Monad_Syntax"
begin

section \<open>JavaScript values\<close>

text \<open>
  The request bodies are JSON objects, so a field the handlers read can be absent
  (\<open>undefined\<close>), \<open>null\<close>, a boolean, a number or a string. \<open>JNum (Some r)\<close> is the
  finite number \<open>r\<close> and \<open>JNum None\<close> is \<open>NaN\<close>; the two infinities are not
  modelled, so that nothing here speaks of a request or a document that holds one. JSON
  arrays and objects in scalar positions are not modelled either, and strings are ASCII.
\<close>

datatype jsval = JUndefined | JNull | JBool bool | JNum "real option" | JStr string

abbreviation Num :: "real \<Rightarrow> jsval" where
  "Num r \<equiv> JNum (Some r)"

text \<open>\<open>typeof v === 'number'\<close>.\<close>

fun is_number :: "jsval \<Rightarrow> bool" where
  "is_number (JNum n) = True"
| "is_number v = False"

text \<open>The truthiness that \<open>!v\<close>, \<open>v || d\<close> and \<open>if (v)\<close> test.\<close>

fun truthy :: "jsval \<Rightarrow> bool" where
  "truthy JUndefined = False"
| "truthy JNull = False"
| "truthy (JBool b) = b"
| "truthy (JNum None) = False"
| "truthy (JNum (Some r)) = (r \<noteq> 0)"
| "truthy (JStr s) = (s \<noteq> [])"

text \<open>\<open>a || b\<close>.\<close>

definition js_or :: "jsval \<Rightarrow> jsval \<Rightarrow> jsval" where
  "js_or a b = (if truthy a then a else b)"

text \<open>
  The numeric coercion of the language (\<open>Number(v)\<close>, and what \<open><\<close>, \<open><=\<close>, \<open>*\<close>,
  unary \<open>-\<close> and \<open>isNaN\<close> apply to an operand); \<open>None\<close> is \<open>NaN\<close>. The empty string
  is 0; the conversion of any other string to a number is a parameter \<open>s2n\<close> of the
  model: every theorem holds for any such conversion.
\<close>

fun ToNumber :: "(string \<Rightarrow> real option) \<Rightarrow> jsval \<Rightarrow> real option" where
  "ToNumber s2n JUndefined = None"
| "ToNumber s2n JNull = Some 0"
| "ToNumber s2n (JBool b) = Some (if b then 1 else 0)"
| "ToNumber s2n (JNum n) = n"
| "ToNumber s2n (JStr s) = (if s = [] then Some 0 else s2n s)"

text \<open>
  Arithmetic and comparison of numbers: \<open>NaN\<close> propagates and compares false. The
  language rounds a sum and a product to a number that it can represent: \<open>a + b\<close> is
  \<open>fl (a + b)\<close> and \<open>a * b\<close> is \<open>fl (a * b)\<close>, where the rounding \<open>fl\<close> is a
  parameter of the model, as \<open>s2n\<close> is: every theorem holds for any rounding, that of
  the language among them. Negation and comparison do not round.
\<close>

fun num_add :: "(real \<Rightarrow> real) \<Rightarrow> real option \<Rightarrow> real option \<Rightarrow> real option" where
  "num_add fl (Some a) (Some b) = Some (fl (a + b))"
| "num_add fl a b = None"

fun num_mul :: "(real \<Rightarrow> real) \<Rightarrow> real option \<Rightarrow> real option \<Rightarrow> real option" where
  "num_mul fl (Some a) (Some b) = Some (fl (a * b))"
| "num_mul fl a b = None"

fun num_neg :: "real option \<Rightarrow> real option" where
  "num_neg (Some a) = Some (- a)"
| "num_neg None = None"

fun num_lt :: "real option \<Rightarrow> real option \<Rightarrow> bool" where
  "num_lt (Some a) (Some b) = (a < b)"
| "num_lt a b = False"

fun num_le :: "real option \<Rightarrow> real option \<Rightarrow> bool" where
  "num_le (Some a) (Some b) = (a \<le> b)"
| "num_le a b = False"

text \<open>
  \<open>String.prototype.trim\<close> on ASCII text: tab, line feed, vertical tab, form feed,
  carriage return and space are removed at both ends.
\<close>

definition js_ws :: "char \<Rightarrow> bool" where
  "js_ws c = (c \<in> {CHR 0x09, CHR 0x0A, CHR 0x0B, CHR 0x0C, CHR 0x0D, CHR '' ''})"

definition trim :: "string \<Rightarrow> string" where
  "trim s = rev (dropWhile js_ws (rev (dropWhile js_ws s)))"

section \<open>Data model\<close>

text \<open>
  Documents are keyed by their \<open>_id\<close>, a natural number here. A \<open>Number\<close> field that
  the schema leaves optional is a \<open>real option\<close>, \<open>None\<close> when the document has no
  such field. The fields of a product follow the product schema of the upload script
  (\<open>pieces\<close> is the quantity on hand).
\<close>

record product =
  item :: string
  p_store :: string
  pieces :: "real option"
  priceUSD :: "real option"
  priceLRD :: "real option"
  p_totalLRD :: "real option"

datatype currency = LRD | USD | BOTH

datatype ttype = Sale | Restock | Return

text \<open>A stored line item (\<open>productsSold\<close> of the transaction schema).\<close>

record line_item =
  li_product :: nat
  productName :: string
  quantity :: real
  priceAtSale_USD :: real
  priceAtSale_LRD :: real

record transaction =
  t_id :: nat
  t_date :: int
  t_type :: ttype
  t_store :: string
  t_currency :: currency
  t_productsSold :: "line_item list"
  t_amountReceivedLRD :: "real option"
  t_amountReceivedUSD :: "real option"
  t_change :: "real option"
  t_changeCurrency :: currency
  t_totalLRD :: "real option"
  t_totalUSD :: "real option"
  t_returnReason :: "string option"
  t_originalTransaction :: "nat option"

datatype cstatus = Pending | Paid

record credit =
  c_store :: string
  c_customerName :: string
  c_productsSold :: "line_item list"
  c_totalLRD :: real
  c_totalUSD :: real
  c_status :: cstatus
  c_preferredCurrency :: currency
  c_date :: int
  c_paidAt :: "int option"
  c_paymentTransaction :: "nat option"

record rate_doc =
  lrdToUsd_of :: real
  updatedAt :: int

text \<open>
  The database: the four collections, and the next fresh \<open>_id\<close> (the driver's
  \<open>ObjectId\<close> generator).
\<close>

record db =
  products :: "nat \<rightharpoonup> product"
  transactions :: "transaction list"
  credits :: "nat \<rightharpoonup> credit"
  currencyRates :: "rate_doc option"
  next_id :: nat

text \<open>
  A line item of a request (\<open>item.product\<close>, \<open>item.quantity\<close>), and the request body
  the handlers destructure. \<open>store\<close>, \<open>customerName\<close> and \<open>returnReason\<close> are
  strings, empty when absent; the item lists are \<open>None\<close> when absent.
\<close>

record req_item =
  ri_product :: nat
  ri_quantity :: jsval

record body =
  productsSold :: "req_item list option"
  productsReturned :: "req_item list option"
  currency :: jsval
  store :: string
  customerName :: string
  amountReceivedLRD :: jsval
  amountReceivedUSD :: jsval
  change :: jsval
  changeCurrency :: jsval
  totalLRD :: jsval
  totalUSD :: jsval
  currencyRate :: jsval
  preferredCurrency :: jsval
  returnReason :: string
  originalTransactionId :: "nat option"
  lrdToUsd :: jsval
  rate :: jsval

definition empty_body :: body where
  "empty_body = \<lparr>productsSold = None, productsReturned = None, currency = JUndefined,
     store = [], customerName = [], amountReceivedLRD = JUndefined,
     amountReceivedUSD = JUndefined, change = JUndefined, changeCurrency = JUndefined,
     totalLRD = JUndefined, totalUSD = JUndefined, currencyRate = JUndefined,
     preferredCurrency = JUndefined, returnReason = [], originalTransactionId = None,
     lrdToUsd = JUndefined, rate = JUndefined\<rparr>"

text \<open>
  Every response that is not a success: one constructor per \<open>return res.status\<close> of
  the handlers, and \<open>Caught\<close> for an exception that reaches a handler's \<open>catch\<close>
  (a schema validation or cast error of the persistence layer, or iterating an absent
  item list).
\<close>

datatype error =
    StoreRequired
  | CustomerNameRequired
  | ProductNotFound nat string
  | InsufficientQuantity string
  | InvalidQuantity string
  | AtLeastOneProduct
  | AmountLRDTooLow
  | AmountUSDTooLow
  | BothAmountsRequired
  | CombinedInsufficient
  | PendingCreditNotFound
  | InvalidRate
  | StoreOrAllStoresRequired
  | Caught

text \<open>The HTTP status of each: 400 is the spec's ValidationError, 404 its NotFoundError.\<close>

fun status_of :: "error \<Rightarrow> nat" where
  "status_of (ProductNotFound i s) = 404"
| "status_of PendingCreditNotFound = 404"
| "status_of e = 400"

section \<open>The persistence layer\<close>

text \<open>
  \<open>Product.findOne({ _id, store })\<close>. The product schema trims \<open>store\<close>, and the
  persistence layer applies that to the value of a query filter too.
\<close>

definition findOne :: "(nat \<rightharpoonup> product) \<Rightarrow> nat \<Rightarrow> string \<Rightarrow> product option" where
  "findOne ps i st =
     (case ps i of None \<Rightarrow> None | Some p \<Rightarrow> if p_store p = trim st then Some p else None)"

text \<open>
  The cast of a value to a schema path of type \<open>Number\<close>: \<open>undefined\<close> and \<open>null\<close>
  stay, the empty string becomes \<open>null\<close>, a string or a boolean is converted, and
  \<open>NaN\<close> is a cast error (\<open>None\<close>).
\<close>

fun castNumber :: "(string \<Rightarrow> real option) \<Rightarrow> jsval \<Rightarrow> jsval option" where
  "castNumber s2n JUndefined = Some JUndefined"
| "castNumber s2n JNull = Some JNull"
| "castNumber s2n (JBool b) = Some (Num (if b then 1 else 0))"
| "castNumber s2n (JNum None) = None"
| "castNumber s2n (JNum (Some r)) = Some (Num r)"
| "castNumber s2n (JStr s) =
     (if s = [] then Some JNull
      else case s2n s of None \<Rightarrow> None | Some r \<Rightarrow> Some (Num r))"

text \<open>
  \<open>Product.findByIdAndUpdate(id, { $inc: { pieces: v } })\<close>: the operand is cast to a
  number, and a value that is not one raises (\<open>None\<close>); a document without the field
  gets it, counted from zero; an unknown \<open>id\<close> changes nothing. The quantity on hand is
  a count, and the database adds to it without rounding.
\<close>

definition incPieces ::
  "(string \<Rightarrow> real option) \<Rightarrow> (nat \<rightharpoonup> product) \<Rightarrow> nat \<Rightarrow> jsval \<Rightarrow> (nat \<rightharpoonup> product) option" where
  "incPieces s2n ps i v =
     (case castNumber s2n v of
        Some (JNum (Some d)) \<Rightarrow>
          Some (case ps i of
                  None \<Rightarrow> ps
                | Some p \<Rightarrow>
                    ps(i \<mapsto> p\<lparr>pieces := Some ((case pieces p of None \<Rightarrow> 0 | Some n \<Rightarrow> n) + d)\<rparr>))
      | _ \<Rightarrow> None)"

text \<open>
  A line item as the handlers build it (\<open>{...item, productName, priceAtSale}\<close>), before
  the schema casts it.
\<close>

record raw_item =
  r_product :: nat
  r_quantity :: jsval
  r_productName :: string
  r_priceUSD :: "real option"
  r_priceLRD :: "real option"

text \<open>
  A \<open>Number\<close> path of a schema: the cast, then the default when the value is
  \<open>undefined\<close>, then the \<open>required\<close> validator. The result is \<open>Some x\<close> for the
  stored value \<open>x\<close> (itself \<open>None\<close> for \<open>null\<close> or no value), and \<open>None\<close> when
  the document is refused.
\<close>

definition numberPath ::
  "(string \<Rightarrow> real option) \<Rightarrow> real option \<Rightarrow> bool \<Rightarrow> jsval \<Rightarrow> real option option" where
  "numberPath s2n dflt req v =
     (case castNumber s2n v of
        None \<Rightarrow> None
      | Some w \<Rightarrow>
          (let x = (case w of JUndefined \<Rightarrow> dflt | JNum n \<Rightarrow> n | _ \<Rightarrow> None)
           in if req \<and> x = None then None else Some x))"

text \<open>
  The items of \<open>productsSold\<close> in the transaction schema: \<open>productName\<close>, \<open>quantity\<close>
  and both prices are required.
\<close>

definition castItem :: "(string \<Rightarrow> real option) \<Rightarrow> raw_item \<Rightarrow> line_item option" where
  "castItem s2n r =
     (if r_productName r = [] then None
      else do {
        qo \<leftarrow> numberPath s2n None True (r_quantity r);
        q \<leftarrow> qo;
        u \<leftarrow> r_priceUSD r;
        l \<leftarrow> r_priceLRD r;
        Some \<lparr>li_product = r_product r, productName = r_productName r, quantity = q,
               priceAtSale_USD = u, priceAtSale_LRD = l\<rparr>
      })"

fun castItems :: "(string \<Rightarrow> real option) \<Rightarrow> raw_item list \<Rightarrow> line_item list option" where
  "castItems s2n [] = Some []"
| "castItems s2n (r # rs) =
     do { li \<leftarrow> castItem s2n r; lis \<leftarrow> castItems s2n rs; Some (li # lis) }"

text \<open>
  The enum \<open>['LRD', 'USD', 'BOTH']\<close>: any other value is refused (a number or a boolean
  is cast to a string that the enum does not have, and wherever a handler can pass
  \<open>null\<close> the path is required).
\<close>

fun castCurrency :: "jsval \<Rightarrow> currency option" where
  "castCurrency (JStr s) =
     (if s = ''LRD'' then Some LRD else if s = ''USD'' then Some USD
      else if s = ''BOTH'' then Some BOTH else None)"
| "castCurrency v = None"

text \<open>The arguments of \<open>new Transaction({...})\<close>.\<close>

record transaction_doc =
  d_type :: ttype
  d_productsSold :: "raw_item list"
  d_currency :: jsval
  d_store :: string
  d_amountReceivedLRD :: jsval
  d_amountReceivedUSD :: jsval
  d_change :: jsval
  d_changeCurrency :: jsval
  d_totalLRD :: jsval
  d_totalUSD :: jsval
  d_returnReason :: "string option"
  d_originalTransaction :: "nat option"

text \<open>
  \<open>new Transaction(d)\<close> followed by \<open>save()\<close>, by the transaction schema: \<open>currency\<close>
  defaults to \<open>'LRD'\<close> and is required; \<open>changeCurrency\<close> defaults to the document's
  currency and must be \<open>'LRD'\<close> or \<open>'USD'\<close>; the two amounts default to 0 and are
  required for their currency; \<open>change\<close> and the totals default to 0; \<open>store\<close> and
  \<open>returnReason\<close> are trimmed and \<open>store\<close> is required; \<open>date\<close> is the clock.
  \<open>None\<close> is a validation or cast error, which the handlers catch.
\<close>

definition Transaction_save ::
  "(string \<Rightarrow> real option) \<Rightarrow> nat \<Rightarrow> int \<Rightarrow> transaction_doc \<Rightarrow> transaction option" where
  "Transaction_save s2n oid now d =
     do {
       cur \<leftarrow> (case d_currency d of JUndefined \<Rightarrow> Some LRD | v \<Rightarrow> castCurrency v);
       cc \<leftarrow> (case d_changeCurrency d of JUndefined \<Rightarrow> Some cur | v \<Rightarrow> castCurrency v);
       lis \<leftarrow> castItems s2n (d_productsSold d);
       aL \<leftarrow> numberPath s2n (Some 0) (cur = LRD \<or> cur = BOTH) (d_amountReceivedLRD d);
       aU \<leftarrow> numberPath s2n (Some 0) (cur = USD \<or> cur = BOTH) (d_amountReceivedUSD d);
       ch \<leftarrow> numberPath s2n (Some 0) False (d_change d);
       tL \<leftarrow> numberPath s2n (Some 0) False (d_totalLRD d);
       tU \<leftarrow> numberPath s2n (Some 0) False (d_totalUSD d);
       if cc = BOTH \<or> trim (d_store d) = [] then None
       else Some \<lparr>t_id = oid, t_date = now, t_type = d_type d, t_store = trim (d_store d),
                   t_currency = cur, t_productsSold = lis, t_amountReceivedLRD = aL,
                   t_amountReceivedUSD = aU, t_change = ch, t_changeCurrency = cc,
                   t_totalLRD = tL, t_totalUSD = tU,
                   t_returnReason = map_option trim (d_returnReason d),
                   t_originalTransaction = d_originalTransaction d\<rparr>
     }"

section \<open>The transaction engine\<close>

text \<open>
  The loop \<open>for (const item of productsSold)\<close> of \<open>createTransaction\<close>, which
  \<open>createCredit\<close> repeats word for word: look the product up in the store, refuse a
  quantity above the stock on hand, decrement the stock, append the enhanced item. The
  result is the response of an early \<open>return\<close> or the enhanced items, with the products
  as the loop left them.
\<close>

fun sellItems ::
  "(string \<Rightarrow> real option) \<Rightarrow> string \<Rightarrow> req_item list \<Rightarrow> (nat \<rightharpoonup> product) \<Rightarrow> raw_item list
     \<Rightarrow> (error + raw_item list) \<times> (nat \<rightharpoonup> product)" where
  "sellItems s2n st [] ps enhanced = (Inr enhanced, ps)"
| "sellItems s2n st (it # its) ps enhanced =
     (case findOne ps (ri_product it) st of
        None \<Rightarrow> (Inl (ProductNotFound (ri_product it) st), ps)
      | Some p \<Rightarrow>
          if num_lt (pieces p) (ToNumber s2n (ri_quantity it))
          then (Inl (InsufficientQuantity (item p)), ps)
          else (case incPieces s2n ps (ri_product it)
                       (JNum (num_neg (ToNumber s2n (ri_quantity it)))) of
                  None \<Rightarrow> (Inl Caught, ps)
                | Some ps' \<Rightarrow>
                    sellItems s2n st its ps'
                      (enhanced @ [\<lparr>r_product = ri_product it, r_quantity = ri_quantity it,
                                     r_productName = item p, r_priceUSD = priceUSD p,
                                     r_priceLRD = priceLRD p\<rparr>])))"

text \<open>
  The payment validation of \<open>createTransaction\<close> (and, over the credit's totals, of
  \<open>payCredit\<close>): \<open>Some e\<close> is the early \<open>return\<close> with the error \<open>e\<close>. \<open>exch\<close> is
  \<open>EXCHANGE_RATE\<close>.
\<close>

definition paymentCheck ::
  "(real \<Rightarrow> real) \<Rightarrow> (string \<Rightarrow> real option) \<Rightarrow> jsval \<Rightarrow> jsval \<Rightarrow> jsval \<Rightarrow> jsval \<Rightarrow> jsval \<Rightarrow> jsval \<Rightarrow> error option" where
  "paymentCheck fl s2n cur aL aU tL tU exch =
     (if cur = JStr ''LRD'' then
        (if \<not> is_number aL \<or> num_lt (ToNumber s2n aL) (ToNumber s2n tL)
         then Some AmountLRDTooLow else None)
      else if cur = JStr ''USD'' then
        (if \<not> is_number aU \<or> num_lt (ToNumber s2n aU) (ToNumber s2n tU)
         then Some AmountUSDTooLow else None)
      else if cur = JStr ''BOTH'' then
        (if \<not> is_number aL \<or> \<not> is_number aU then Some BothAmountsRequired
         else if num_lt (num_add fl (ToNumber s2n aL)
                           (num_mul fl (ToNumber s2n aU) (ToNumber s2n exch)))
                   (ToNumber s2n tL)
         then Some CombinedInsufficient else None)
      else None)"

text \<open>\<open>currencyRate || 197\<close>.\<close>

definition EXCHANGE_RATE :: "jsval \<Rightarrow> jsval" where
  "EXCHANGE_RATE r = js_or r (Num 197)"

text \<open>The argument of \<open>new Transaction({...})\<close> in \<open>createTransaction\<close>.\<close>

definition saleDoc :: "body \<Rightarrow> raw_item list \<Rightarrow> transaction_doc" where
  "saleDoc b enhancedProductsSold =
     \<lparr>d_type = Sale, d_productsSold = enhancedProductsSold,
      d_currency = currency b, d_store = store b,
      d_amountReceivedLRD = (if currency b = JStr ''USD'' then Num 0 else amountReceivedLRD b),
      d_amountReceivedUSD = (if currency b = JStr ''LRD'' then Num 0 else amountReceivedUSD b),
      d_change = change b,
      d_changeCurrency = (if currency b = JStr ''BOTH'' then changeCurrency b else currency b),
      d_totalLRD = js_or (totalLRD b) (Num 0), d_totalUSD = js_or (totalUSD b) (Num 0),
      d_returnReason = None, d_originalTransaction = None\<rparr>"

definition createTransaction ::
  "(real \<Rightarrow> real) \<Rightarrow> (string \<Rightarrow> real option) \<Rightarrow> int \<Rightarrow> body \<Rightarrow> db \<Rightarrow> (error + transaction) \<times> db" where
  "createTransaction fl s2n now b dbs =
     (if store b = [] then (Inl StoreRequired, dbs)
      else case productsSold b of
        None \<Rightarrow> (Inl Caught, dbs)
      | Some its \<Rightarrow>
          (case sellItems s2n (store b) its (products dbs) [] of
             (Inl e, ps) \<Rightarrow> (Inl e, dbs\<lparr>products := ps\<rparr>)
           | (Inr enhancedProductsSold, ps) \<Rightarrow>
               (case paymentCheck fl s2n (currency b) (amountReceivedLRD b) (amountReceivedUSD b)
                       (totalLRD b) (totalUSD b) (EXCHANGE_RATE (currencyRate b)) of
                  Some e \<Rightarrow> (Inl e, dbs\<lparr>products := ps\<rparr>)
                | None \<Rightarrow>
                    (case Transaction_save s2n (next_id dbs) now (saleDoc b enhancedProductsSold) of
                       None \<Rightarrow> (Inl Caught, dbs\<lparr>products := ps\<rparr>)
                     | Some t \<Rightarrow>
                         (Inr t, dbs\<lparr>products := ps, transactions := transactions dbs @ [t],
                                     next_id := Suc (next_id dbs)\<rparr>)))))"

text \<open>
  \<open>createReturnTransaction\<close>: the loop \<open>for (const item of productsReturned)\<close> with
  its two running totals, then the handler.
\<close>

fun returnItems ::
  "(real \<Rightarrow> real) \<Rightarrow> (string \<Rightarrow> real option) \<Rightarrow> string \<Rightarrow> req_item list \<Rightarrow> (nat \<rightharpoonup> product) \<Rightarrow> raw_item list
     \<Rightarrow> real option \<Rightarrow> real option
     \<Rightarrow> (error + raw_item list \<times> real option \<times> real option) \<times> (nat \<rightharpoonup> product)" where
  "returnItems fl s2n st [] ps enhanced tL tU = (Inr (enhanced, tL, tU), ps)"
| "returnItems fl s2n st (it # its) ps enhanced tL tU =
     (case findOne ps (ri_product it) st of
        None \<Rightarrow> (Inl (ProductNotFound (ri_product it) st), ps)
      | Some p \<Rightarrow>
          if \<not> truthy (ri_quantity it) \<or> num_le (ToNumber s2n (ri_quantity it)) (Some 0)
          then (Inl (InvalidQuantity (item p)), ps)
          else (case incPieces s2n ps (ri_product it) (ri_quantity it) of
                  None \<Rightarrow> (Inl Caught, ps)
                | Some ps' \<Rightarrow>
                    returnItems fl s2n st its ps'
                      (enhanced @ [\<lparr>r_product = ri_product it, r_quantity = ri_quantity it,
                                     r_productName = item p, r_priceUSD = priceUSD p,
                                     r_priceLRD = priceLRD p\<rparr>])
                      (num_add fl tL (num_mul fl (priceLRD p) (ToNumber s2n (ri_quantity it))))
                      (num_add fl tU (num_mul fl (priceUSD p) (ToNumber s2n (ri_quantity it))))))"

text \<open>
  The argument of \<open>new Transaction({...})\<close> in \<open>createReturnTransaction\<close>; the fields it
  does not name are \<open>undefined\<close>.
\<close>

definition returnDoc :: "body \<Rightarrow> raw_item list \<Rightarrow> real option \<Rightarrow> real option \<Rightarrow> transaction_doc" where
  "returnDoc b enhancedProductsReturned tL tU =
     \<lparr>d_type = Return, d_productsSold = enhancedProductsReturned,
      d_currency = currency b, d_store = store b,
      d_amountReceivedLRD = JUndefined, d_amountReceivedUSD = JUndefined,
      d_change = JUndefined, d_changeCurrency = JUndefined,
      d_totalLRD = JNum tL, d_totalUSD = JNum tU,
      d_returnReason =
        Some (if returnReason b = [] then ''No reason provided'' else returnReason b),
      d_originalTransaction = originalTransactionId b\<rparr>"

definition createReturnTransaction ::
  "(real \<Rightarrow> real) \<Rightarrow> (string \<Rightarrow> real option) \<Rightarrow> int \<Rightarrow> body \<Rightarrow> db \<Rightarrow> (error + transaction) \<times> db" where
  "createReturnTransaction fl s2n now b dbs =
     (if store b = [] then (Inl StoreRequired, dbs)
      else case productsReturned b of
        None \<Rightarrow> (Inl AtLeastOneProduct, dbs)
      | Some [] \<Rightarrow> (Inl AtLeastOneProduct, dbs)
      | Some its \<Rightarrow>
          (case returnItems fl s2n (store b) its (products dbs) [] (Some 0) (Some 0) of
             (Inl e, ps) \<Rightarrow> (Inl e, dbs\<lparr>products := ps\<rparr>)
           | (Inr (enhancedProductsReturned, tL, tU), ps) \<Rightarrow>
               (case Transaction_save s2n (next_id dbs) now
                       (returnDoc b enhancedProductsReturned tL tU) of
                  None \<Rightarrow> (Inl Caught, dbs\<lparr>products := ps\<rparr>)
                | Some t \<Rightarrow>
                    (Inr t, dbs\<lparr>products := ps, transactions := transactions dbs @ [t],
                                next_id := Suc (next_id dbs)\<rparr>))))"

section \<open>The credit engine\<close>

text \<open>The arguments of \<open>new Credit({...})\<close>; the status is \<open>'pending'\<close>.\<close>

record credit_doc =
  cd_productsSold :: "raw_item list"
  cd_store :: string
  cd_customerName :: string
  cd_totalLRD :: jsval
  cd_totalUSD :: jsval
  cd_preferredCurrency :: jsval

text \<open>
  Modelled from the spec: the credit schema (the file of the \<open>Credit\<close> model is not among
  the sources). The spec gives a credit line items of the same shape as a transaction's,
  the two totals, a status, and a preferred currency among LRD and USD.
\<close>

definition Credit_save :: "(string \<Rightarrow> real option) \<Rightarrow> int \<Rightarrow> credit_doc \<Rightarrow> credit option" where
  "Credit_save s2n now d =
     do {
       lis \<leftarrow> castItems s2n (cd_productsSold d);
       tLo \<leftarrow> numberPath s2n (Some 0) True (cd_totalLRD d);
       tL \<leftarrow> tLo;
       tUo \<leftarrow> numberPath s2n (Some 0) True (cd_totalUSD d);
       tU \<leftarrow> tUo;
       pc \<leftarrow> castCurrency (cd_preferredCurrency d);
       if pc = BOTH then None
       else Some \<lparr>c_store = cd_store d, c_customerName = cd_customerName d,
                   c_productsSold = lis, c_totalLRD = tL, c_totalUSD = tU, c_status = Pending,
                   c_preferredCurrency = pc, c_date = now, c_paidAt = None,
                   c_paymentTransaction = None\<rparr>
     }"

text \<open>The argument of \<open>new Credit({...})\<close> in \<open>createCredit\<close>.\<close>

definition creditDoc :: "body \<Rightarrow> raw_item list \<Rightarrow> credit_doc" where
  "creditDoc b enhancedProductsSold =
     \<lparr>cd_productsSold = enhancedProductsSold, cd_store = store b,
      cd_customerName = customerName b,
      cd_totalLRD = js_or (totalLRD b) (Num 0), cd_totalUSD = js_or (totalUSD b) (Num 0),
      cd_preferredCurrency = js_or (preferredCurrency b) (JStr ''LRD'')\<rparr>"

definition createCredit ::
  "(string \<Rightarrow> real option) \<Rightarrow> int \<Rightarrow> body \<Rightarrow> db \<Rightarrow> (error + nat \<times> credit) \<times> db" where
  "createCredit s2n now b dbs =
     (if store b = [] then (Inl StoreRequired, dbs)
      else if customerName b = [] \<or> trim (customerName b) = []
      then (Inl CustomerNameRequired, dbs)
      else case productsSold b of
        None \<Rightarrow> (Inl Caught, dbs)
      | Some its \<Rightarrow>
          (case sellItems s2n (store b) its (products dbs) [] of
             (Inl e, ps) \<Rightarrow> (Inl e, dbs\<lparr>products := ps\<rparr>)
           | (Inr enhancedProductsSold, ps) \<Rightarrow>
               (case Credit_save s2n now (creditDoc b enhancedProductsSold) of
                  None \<Rightarrow> (Inl Caught, dbs\<lparr>products := ps\<rparr>)
                | Some c \<Rightarrow>
                    (Inr (next_id dbs, c),
                     dbs\<lparr>products := ps, credits := (credits dbs)(next_id dbs \<mapsto> c),
                         next_id := Suc (next_id dbs)\<rparr>))))"

text \<open>
  \<open>Credit.findOne({ _id: id, store, status: 'pending' })\<close>; the store is compared as
  it is given.
\<close>

definition findPendingCredit :: "(nat \<rightharpoonup> credit) \<Rightarrow> nat \<Rightarrow> string \<Rightarrow> credit option" where
  "findPendingCredit cs i st =
     (case cs i of
        None \<Rightarrow> None
      | Some c \<Rightarrow> if c_store c = st \<and> c_status c = Pending then Some c else None)"

text \<open>A stored line item handed to \<open>new Transaction\<close> again.\<close>

definition rawOfItem :: "line_item \<Rightarrow> raw_item" where
  "rawOfItem li = \<lparr>r_product = li_product li, r_quantity = Num (quantity li),
     r_productName = productName li, r_priceUSD = Some (priceAtSale_USD li),
     r_priceLRD = Some (priceAtSale_LRD li)\<rparr>"

text \<open>The argument of \<open>new Transaction({...})\<close> in \<open>payCredit\<close>.\<close>

definition paymentDoc :: "credit \<Rightarrow> body \<Rightarrow> transaction_doc" where
  "paymentDoc c b =
     \<lparr>d_type = Sale, d_productsSold = map rawOfItem (c_productsSold c),
      d_currency = currency b, d_store = store b,
      d_amountReceivedLRD = (if currency b = JStr ''USD'' then Num 0 else amountReceivedLRD b),
      d_amountReceivedUSD = (if currency b = JStr ''LRD'' then Num 0 else amountReceivedUSD b),
      d_change = change b,
      d_changeCurrency = (if currency b = JStr ''BOTH'' then changeCurrency b else currency b),
      d_totalLRD = Num (c_totalLRD c), d_totalUSD = Num (c_totalUSD c),
      d_returnReason = None, d_originalTransaction = None\<rparr>"

definition payCredit ::
  "(real \<Rightarrow> real) \<Rightarrow> (string \<Rightarrow> real option) \<Rightarrow> int \<Rightarrow> nat \<Rightarrow> body \<Rightarrow> db \<Rightarrow> (error + credit \<times> transaction) \<times> db" where
  "payCredit fl s2n now cid b dbs =
     (if store b = [] then (Inl StoreRequired, dbs)
      else case findPendingCredit (credits dbs) cid (store b) of
        None \<Rightarrow> (Inl PendingCreditNotFound, dbs)
      | Some c \<Rightarrow>
          (case paymentCheck fl s2n (currency b) (amountReceivedLRD b) (amountReceivedUSD b)
                  (Num (c_totalLRD c)) (Num (c_totalUSD c)) (EXCHANGE_RATE (currencyRate b)) of
             Some e \<Rightarrow> (Inl e, dbs)
           | None \<Rightarrow>
               (case Transaction_save s2n (next_id dbs) now (paymentDoc c b) of
                  None \<Rightarrow> (Inl Caught, dbs)
                | Some t \<Rightarrow>
                    (let c' = c\<lparr>c_status := Paid, c_paidAt := Some now,
                                 c_paymentTransaction := Some (t_id t)\<rparr>
                     in (Inr (c', t),
                         dbs\<lparr>transactions := transactions dbs @ [t],
                             credits := (credits dbs)(cid \<mapsto> c'),
                             next_id := Suc (next_id dbs)\<rparr>)))))"

section \<open>The currency rate store\<close>

text \<open>
  The update pipeline of \<open>Product.updateMany\<close> on one product that matches the filter
  \<open>{ priceUSD: { $exists: true, $ne: null } }\<close>: the first stage sets \<open>priceLRD\<close>, the
  second sets \<open>totalLRD\<close> from the new \<open>priceLRD\<close> when its condition holds. The
  condition \<open>{ $ifNull: ["$pieces", false] }\<close> is the value of \<open>pieces\<close> when the field
  is there, and \<open>$cond\<close> takes a number as true when it is not zero.
\<close>

definition recalcProduct :: "(real \<Rightarrow> real) \<Rightarrow> real \<Rightarrow> product \<Rightarrow> product" where
  "recalcProduct fl r p =
     (case priceUSD p of
        None \<Rightarrow> p
      | Some u \<Rightarrow>
          (let p1 = p\<lparr>priceLRD := Some (fl (u * r))\<rparr>
           in case pieces p1 of
                None \<Rightarrow> p1
              | Some n \<Rightarrow>
                  if n \<noteq> 0 then p1\<lparr>p_totalLRD := Some (fl (n * fl (u * r)))\<rparr> else p1))"

definition updateMany ::
  "(real \<Rightarrow> real) \<Rightarrow> real \<Rightarrow> (nat \<rightharpoonup> product) \<Rightarrow> (nat \<rightharpoonup> product)" where
  "updateMany fl r ps = (\<lambda>i. map_option (recalcProduct fl r) (ps i))"

text \<open>
  Modelled from the spec: the currency rate collection (the file of the \<open>CurrencyRate\<close>
  model is not among the sources), a single record of the rate and its timestamp.
  \<open>saveRate\<close> is the \<open>if (rate) {...} else {...}\<close> of \<open>updateRate\<close>.
\<close>

definition saveRate :: "real \<Rightarrow> int \<Rightarrow> db \<Rightarrow> db" where
  "saveRate r now dbs = dbs\<lparr>currencyRates := Some \<lparr>lrdToUsd_of = r, updatedAt = now\<rparr>\<rparr>"

text \<open>
  The rate that \<open>updateRate\<close> reads from the request: \<open>lrdToUsd\<close>, or \<open>rate\<close> when
  \<open>lrdToUsd\<close> is falsy and \<open>rate\<close> is not.
\<close>

definition suppliedRate :: "body \<Rightarrow> jsval" where
  "suppliedRate b = (if \<not> truthy (lrdToUsd b) \<and> truthy (rate b) then rate b else lrdToUsd b)"

definition updateRate ::
  "(real \<Rightarrow> real) \<Rightarrow> (string \<Rightarrow> real option) \<Rightarrow> int \<Rightarrow> body \<Rightarrow> db \<Rightarrow> (error + rate_doc) \<times> db" where
  "updateRate fl s2n now b dbs =
     (let l = suppliedRate b
      in if \<not> truthy l \<or> ToNumber s2n l = None \<or> num_le (ToNumber s2n l) (Some 0)
         then (Inl InvalidRate, dbs)
         else (case ToNumber s2n l of
                 None \<Rightarrow> (Inl Caught, dbs)
               | Some r \<Rightarrow>
                   (let dbs1 = saveRate r now dbs
                    in (Inr \<lparr>lrdToUsd_of = r, updatedAt = now\<rparr>,
                        dbs1\<lparr>products := updateMany fl r (products dbs1)\<rparr>))))"

section \<open>The reporting aggregator\<close>

text \<open>
  The rollups of \<open>getSalesReport\<close> are objects used as dictionaries: here lists of
  entries in the order of first insertion, an entry's key being its \<open>date\<close> or
  \<open>store\<close> field. The key of a day is the number of the UTC day of the transaction's
  date (\<open>toISOString().split('T')[0]\<close>), dates being milliseconds since the epoch.
\<close>

record bucket =
  b_totalLRD :: real
  b_totalUSD :: real
  b_transactions :: nat
  b_returns :: nat
  b_items :: real

record product_total =
  pt_name :: string
  pt_store :: string
  quantitySold :: real
  quantityReturned :: real
  pt_totalLRD :: real
  pt_totalUSD :: real

record overall =
  o_totalLRD :: real
  o_totalUSD :: real
  totalItems :: real
  totalTransactions :: nat
  totalReturns :: nat
  totalAmountReceivedLRD :: real
  totalAmountReceivedUSD :: real
  totalChangeLRD :: real
  totalChangeUSD :: real
  storeCount :: nat

record rollups =
  dailyTotals :: "(int \<times> bucket) list"
  productTotals :: "(string \<times> product_total) list"
  storeTotals :: "(string \<times> bucket) list"
  overallTotals :: overall

record report =
  summary :: overall
  dailyTotalsArray :: "(int \<times> bucket) list"
  productTotalsArray :: "product_total list"
  storeTotalsArray :: "(string \<times> bucket) list"
  recentTransactions :: "transaction list"

text \<open>\<open>if (!d[k]) { d[k] = v }\<close> and an update of the entry \<open>d[k]\<close>.\<close>

definition init_key :: "'k \<Rightarrow> 'v \<Rightarrow> ('k \<times> 'v) list \<Rightarrow> ('k \<times> 'v) list" where
  "init_key k v d = (if k \<in> fst ` set d then d else d @ [(k, v)])"

definition modify :: "'k \<Rightarrow> ('v \<Rightarrow> 'v) \<Rightarrow> ('k \<times> 'v) list \<Rightarrow> ('k \<times> 'v) list" where
  "modify k f d = map (\<lambda>(k', v). if k' = k then (k', f v) else (k', v)) d"

text \<open>
  The names that every object has from \<open>Object.prototype\<close>. For such a name \<open>k\<close>,
  \<open>d[k]\<close> is there before anything is stored, so \<open>if (!d[k])\<close> stores no entry, and
  the updates of \<open>d[k]\<close> that follow change what \<open>d\<close> inherits, not an entry of \<open>d\<close>:
  no rollup for a store or a product of that name reaches the report. (A key of a day is
  never such a name.)
\<close>

definition protoKeys :: "string list" where
  "protoKeys = [''constructor'', ''__defineGetter__'', ''__defineSetter__'', ''hasOwnProperty'',
     ''__lookupGetter__'', ''__lookupSetter__'', ''isPrototypeOf'', ''propertyIsEnumerable'',
     ''toString'', ''valueOf'', ''__proto__'', ''toLocaleString'']"

definition init_name :: "string \<Rightarrow> 'v \<Rightarrow> (string \<times> 'v) list \<Rightarrow> (string \<times> 'v) list" where
  "init_name k v d = (if k \<in> set protoKeys then d else init_key k v d)"

text \<open>
  \<open>Object.values(d)\<close>: the entries whose key is an array index (the decimal numeral of a
  number below \<open>2^32 - 1\<close>) come first, by ascending index, and the other entries follow
  in the order of insertion. The key of a day or of a product is never an array index;
  the name of a store can be one.
\<close>

definition is_digit :: "char \<Rightarrow> bool" where
  "is_digit c = (c \<in> set ''0123456789'')"

definition index_value :: "string \<Rightarrow> nat" where
  "index_value k = foldl (\<lambda>n c. 10 * n + (of_char c - 48)) 0 k"

definition is_array_index :: "string \<Rightarrow> bool" where
  "is_array_index k =
     (k \<noteq> [] \<and> list_all is_digit k \<and> (k = ''0'' \<or> hd k \<noteq> CHR ''0'')
      \<and> index_value k < 4294967295)"

definition objectValues :: "(string \<times> 'v) list \<Rightarrow> (string \<times> 'v) list" where
  "objectValues d =
     sort_key (\<lambda>(k, v). index_value k) (filter (\<lambda>(k, v). is_array_index k) d)
     @ filter (\<lambda>(k, v). \<not> is_array_index k) d"

text \<open>
  The truthiness of a stored number, and \<open>if (v) { x += v }\<close> and \<open>if (v) { x -= v }\<close>.
\<close>

definition truthy_num :: "real option \<Rightarrow> bool" where
  "truthy_num v = (case v of None \<Rightarrow> False | Some a \<Rightarrow> a \<noteq> 0)"

definition add_if :: "(real \<Rightarrow> real) \<Rightarrow> real option \<Rightarrow> real \<Rightarrow> real" where
  "add_if fl v x = (if truthy_num v then fl (x + the v) else x)"

definition sub_if :: "(real \<Rightarrow> real) \<Rightarrow> real option \<Rightarrow> real \<Rightarrow> real" where
  "sub_if fl v x = (if truthy_num v then fl (x - the v) else x)"

definition zero_bucket :: bucket where
  "zero_bucket = \<lparr>b_totalLRD = 0, b_totalUSD = 0, b_transactions = 0, b_returns = 0, b_items = 0\<rparr>"

definition zero_overall :: overall where
  "zero_overall = \<lparr>o_totalLRD = 0, o_totalUSD = 0, totalItems = 0, totalTransactions = 0,
     totalReturns = 0, totalAmountReceivedLRD = 0, totalAmountReceivedUSD = 0,
     totalChangeLRD = 0, totalChangeUSD = 0, storeCount = 0\<rparr>"

definition dateKey :: "transaction \<Rightarrow> int" where
  "dateKey t = t_date t div 86400000"

definition productKey :: "line_item \<Rightarrow> transaction \<Rightarrow> string" where
  "productKey li t = productName li @ ''_'' @ t_store t"

definition zero_product :: "line_item \<Rightarrow> transaction \<Rightarrow> product_total" where
  "zero_product li t = \<lparr>pt_name = productName li, pt_store = t_store t, quantitySold = 0,
     quantityReturned = 0, pt_totalLRD = 0, pt_totalUSD = 0\<rparr>"

text \<open>The body of \<open>transaction.productsSold.forEach\<close> for a sale.\<close>

definition saleItem :: "(real \<Rightarrow> real) \<Rightarrow> transaction \<Rightarrow> rollups \<Rightarrow> line_item \<Rightarrow> rollups" where
  "saleItem fl t s li =
     s\<lparr>dailyTotals :=
         modify (dateKey t) (\<lambda>b. b\<lparr>b_items := fl (b_items b + quantity li)\<rparr>) (dailyTotals s),
       storeTotals :=
         modify (t_store t) (\<lambda>b. b\<lparr>b_items := fl (b_items b + quantity li)\<rparr>) (storeTotals s),
       overallTotals :=
         (overallTotals s)\<lparr>totalItems := fl (totalItems (overallTotals s) + quantity li)\<rparr>,
       productTotals :=
         modify (productKey li t)
           (\<lambda>e. if t_currency t = LRD
                then e\<lparr>quantitySold := fl (quantitySold e + quantity li),
                       pt_totalLRD := fl (pt_totalLRD e + fl (priceAtSale_LRD li * quantity li))\<rparr>
                else e\<lparr>quantitySold := fl (quantitySold e + quantity li),
                       pt_totalUSD := fl (pt_totalUSD e + fl (priceAtSale_USD li * quantity li))\<rparr>)
           (init_name (productKey li t) (zero_product li t) (productTotals s))\<rparr>"

text \<open>The payment details a sale adds to the overall totals.\<close>

definition salePayment :: "(real \<Rightarrow> real) \<Rightarrow> transaction \<Rightarrow> overall \<Rightarrow> overall" where
  "salePayment fl t ov =
     (if t_currency t = LRD \<and> truthy_num (t_amountReceivedLRD t)
      then ov\<lparr>totalAmountReceivedLRD :=
                 fl (totalAmountReceivedLRD ov + the (t_amountReceivedLRD t)),
               totalChangeLRD := add_if fl (t_change t) (totalChangeLRD ov)\<rparr>
      else if t_currency t = USD \<and> truthy_num (t_amountReceivedUSD t)
      then ov\<lparr>totalAmountReceivedUSD :=
                 fl (totalAmountReceivedUSD ov + the (t_amountReceivedUSD t)),
               totalChangeUSD := add_if fl (t_change t) (totalChangeUSD ov)\<rparr>
      else ov)"

text \<open>The body of \<open>salesTransactions.forEach\<close>.\<close>

definition processSale :: "(real \<Rightarrow> real) \<Rightarrow> rollups \<Rightarrow> transaction \<Rightarrow> rollups" where
  "processSale fl s t =
     foldl (saleItem fl t)
       (s\<lparr>dailyTotals :=
            modify (dateKey t)
              (\<lambda>b. b\<lparr>b_totalLRD := add_if fl (t_totalLRD t) (b_totalLRD b),
                      b_totalUSD := add_if fl (t_totalUSD t) (b_totalUSD b),
                      b_transactions := b_transactions b + 1\<rparr>)
              (init_key (dateKey t) zero_bucket (dailyTotals s)),
          overallTotals :=
            salePayment fl t
              ((overallTotals s)
                 \<lparr>o_totalLRD := add_if fl (t_totalLRD t) (o_totalLRD (overallTotals s)),
                  o_totalUSD := add_if fl (t_totalUSD t) (o_totalUSD (overallTotals s)),
                  totalTransactions := totalTransactions (overallTotals s) + 1\<rparr>),
          storeTotals :=
            modify (t_store t)
              (\<lambda>b. b\<lparr>b_totalLRD := add_if fl (t_totalLRD t) (b_totalLRD b),
                      b_totalUSD := add_if fl (t_totalUSD t) (b_totalUSD b),
                      b_transactions := b_transactions b + 1\<rparr>)
              (init_name (t_store t) zero_bucket (storeTotals s))\<rparr>)
       (t_productsSold t)"

text \<open>The same for a return, which subtracts.\<close>

definition returnItem :: "(real \<Rightarrow> real) \<Rightarrow> transaction \<Rightarrow> rollups \<Rightarrow> line_item \<Rightarrow> rollups" where
  "returnItem fl t s li =
     s\<lparr>dailyTotals :=
         modify (dateKey t) (\<lambda>b. b\<lparr>b_items := fl (b_items b - quantity li)\<rparr>) (dailyTotals s),
       storeTotals :=
         modify (t_store t) (\<lambda>b. b\<lparr>b_items := fl (b_items b - quantity li)\<rparr>) (storeTotals s),
       overallTotals :=
         (overallTotals s)\<lparr>totalItems := fl (totalItems (overallTotals s) - quantity li)\<rparr>,
       productTotals :=
         modify (productKey li t)
           (\<lambda>e. if t_currency t = LRD
                then e\<lparr>quantityReturned := fl (quantityReturned e + quantity li),
                       pt_totalLRD := fl (pt_totalLRD e - fl (priceAtSale_LRD li * quantity li))\<rparr>
                else e\<lparr>quantityReturned := fl (quantityReturned e + quantity li),
                       pt_totalUSD := fl (pt_totalUSD e - fl (priceAtSale_USD li * quantity li))\<rparr>)
           (init_name (productKey li t) (zero_product li t) (productTotals s))\<rparr>"

definition processReturn :: "(real \<Rightarrow> real) \<Rightarrow> rollups \<Rightarrow> transaction \<Rightarrow> rollups" where
  "processReturn fl s t =
     foldl (returnItem fl t)
       (s\<lparr>dailyTotals :=
            modify (dateKey t)
              (\<lambda>b. b\<lparr>b_totalLRD := sub_if fl (t_totalLRD t) (b_totalLRD b),
                      b_totalUSD := sub_if fl (t_totalUSD t) (b_totalUSD b),
                      b_returns := b_returns b + 1\<rparr>)
              (init_key (dateKey t) zero_bucket (dailyTotals s)),
          overallTotals :=
            (overallTotals s)
              \<lparr>o_totalLRD := sub_if fl (t_totalLRD t) (o_totalLRD (overallTotals s)),
               o_totalUSD := sub_if fl (t_totalUSD t) (o_totalUSD (overallTotals s)),
               totalReturns := totalReturns (overallTotals s) + 1\<rparr>,
          storeTotals :=
            modify (t_store t)
              (\<lambda>b. b\<lparr>b_totalLRD := sub_if fl (t_totalLRD t) (b_totalLRD b),
                      b_totalUSD := sub_if fl (t_totalUSD t) (b_totalUSD b),
                      b_returns := b_returns b + 1\<rparr>)
              (init_name (t_store t) zero_bucket (storeTotals s))\<rparr>)
       (t_productsSold t)"

text \<open>
  The three \<open>Object.keys(...).forEach\<close> loops and the three lines after them: these
  fields, and no other, go through \<open>Math.max(0, ...)\<close>.
\<close>

definition clampBucket :: "bucket \<Rightarrow> bucket" where
  "clampBucket b = b\<lparr>b_totalLRD := max 0 (b_totalLRD b), b_totalUSD := max 0 (b_totalUSD b),
     b_items := max 0 (b_items b)\<rparr>"

definition clampProduct :: "product_total \<Rightarrow> product_total" where
  "clampProduct e = e\<lparr>pt_totalLRD := max 0 (pt_totalLRD e), pt_totalUSD := max 0 (pt_totalUSD e)\<rparr>"

definition clampOverall :: "overall \<Rightarrow> overall" where
  "clampOverall ov = ov\<lparr>o_totalLRD := max 0 (o_totalLRD ov), o_totalUSD := max 0 (o_totalUSD ov),
     totalItems := max 0 (totalItems ov)\<rparr>"

definition clampRollups :: "rollups \<Rightarrow> rollups" where
  "clampRollups s =
     \<lparr>dailyTotals = map (\<lambda>(k, b). (k, clampBucket b)) (dailyTotals s),
      productTotals = map (\<lambda>(k, e). (k, clampProduct e)) (productTotals s),
      storeTotals = map (\<lambda>(k, b). (k, clampBucket b)) (storeTotals s),
      overallTotals = clampOverall (overallTotals s)\<rparr>"

text \<open>
  \<open>Transaction.find(query).sort({ date: -1 })\<close> over the base query of the report and a
  set of types. \<open>startDate\<close> and \<open>endDate\<close> are the bounds after \<open>setHours\<close> (the
  reading of the query strings in the server's time zone is not modelled); the store of
  the filter is trimmed, as the schema has it; transactions of one date keep their order
  of insertion.
\<close>

definition findByType ::
  "int \<Rightarrow> int \<Rightarrow> string \<Rightarrow> bool \<Rightarrow> ttype set \<Rightarrow> transaction list \<Rightarrow> transaction list" where
  "findByType startDate endDate st allStores tys ts =
     sort_key (\<lambda>t. - t_date t)
       (filter (\<lambda>t. startDate \<le> t_date t \<and> t_date t \<le> endDate
                   \<and> (allStores \<or> t_store t = trim st) \<and> t_type t \<in> tys) ts)"

definition getSalesReport ::
  "(real \<Rightarrow> real) \<Rightarrow> int \<Rightarrow> int \<Rightarrow> string \<Rightarrow> bool \<Rightarrow> db \<Rightarrow> error + report" where
  "getSalesReport fl startDate endDate st allStores dbs =
     (if \<not> allStores \<and> st = [] then Inl StoreOrAllStoresRequired
      else
        (let salesTransactions = findByType startDate endDate st allStores {Sale} (transactions dbs);
             returnTransactions = findByType startDate endDate st allStores {Return} (transactions dbs);
             s = clampRollups
                   (foldl (processReturn fl)
                      (foldl (processSale fl)
                         \<lparr>dailyTotals = [], productTotals = [], storeTotals = [],
                          overallTotals = zero_overall\<rparr>
                         salesTransactions)
                      returnTransactions)
         in Inr \<lparr>summary = (overallTotals s)\<lparr>storeCount := length (storeTotals s)\<rparr>,
                 dailyTotalsArray = sort_key (\<lambda>(k, b). - k) (dailyTotals s),
                 productTotalsArray = sort_key (\<lambda>e. - quantitySold e) (map snd (productTotals s)),
                 storeTotalsArray =
                   sort_key (\<lambda>(k, b). - int (b_transactions b)) (objectValues (storeTotals s)),
                 recentTransactions =
                   take 50 (findByType startDate endDate st allStores {Sale, Return}
                              (transactions dbs))\<rparr>))"

section \<open>The claims in the words of the spec\<close>

text \<open>
  The effective rate as the spec words it: the rate of the caller, or the fixed fallback
  when the caller gives none.
\<close>

definition spec_effectiveRate :: "jsval \<Rightarrow> jsval" where
  "spec_effectiveRate r = (if r = JUndefined then Num 197 else r)"

text \<open>
  The payment is insufficient, as the spec words it, for an effective rate \<open>eff\<close>:
  the comparisons are those of the language.
\<close>

definition spec_insufficient ::
  "(real \<Rightarrow> real) \<Rightarrow> (string \<Rightarrow> real option) \<Rightarrow> jsval \<Rightarrow> jsval \<Rightarrow> jsval \<Rightarrow> jsval \<Rightarrow> jsval \<Rightarrow> jsval \<Rightarrow> bool" where
  "spec_insufficient fl s2n cur aL aU tL tU eff =
     (if cur = JStr ''LRD'' then \<not> is_number aL \<or> num_lt (ToNumber s2n aL) (ToNumber s2n tL)
      else if cur = JStr ''USD'' then \<not> is_number aU \<or> num_lt (ToNumber s2n aU) (ToNumber s2n tU)
      else if cur = JStr ''BOTH'' then
        \<not> is_number aL \<or> \<not> is_number aU \<or>
        num_lt (num_add fl (ToNumber s2n aL) (num_mul fl (ToNumber s2n aU) (ToNumber s2n eff)))
          (ToNumber s2n tL)
      else False)"

text \<open>A finite positive number, as the spec words the rates that \<open>updateRate\<close> accepts.\<close>

fun spec_finite_positive :: "jsval \<Rightarrow> bool" where
  "spec_finite_positive (JNum (Some r)) = (0 < r)"
| "spec_finite_positive v = False"

section \<open>Quantities the properties speak of\<close>

text \<open>
  The sum of the quantities of the line items that request the product \<open>i\<close>, each
  read as a number.
\<close>

definition requested :: "(string \<Rightarrow> real option) \<Rightarrow> nat \<Rightarrow> req_item list \<Rightarrow> real" where
  "requested s2n i its =
     sum_list (map (\<lambda>it. case ToNumber s2n (ri_quantity it) of None \<Rightarrow> 0 | Some q \<Rightarrow> q)
                 (filter (\<lambda>it. ri_product it = i) its))"

text \<open>The quantity on hand of the product \<open>i\<close>, when the product is there and has one.\<close>

definition onHand :: "(nat \<rightharpoonup> product) \<Rightarrow> nat \<Rightarrow> real option" where
  "onHand ps i = (case ps i of None \<Rightarrow> None | Some p \<Rightarrow> pieces p)"

text \<open>
  The products as the loop over the line items has left them after its first \<open>k\<close>
  rounds.
\<close>

definition productsAfter ::
  "(string \<Rightarrow> real option) \<Rightarrow> string \<Rightarrow> req_item list \<Rightarrow> (nat \<rightharpoonup> product) \<Rightarrow> nat \<Rightarrow> (nat \<rightharpoonup> product)" where
  "productsAfter s2n st its ps k = snd (sellItems s2n st (take k its) ps [])"

text \<open>
  The value of the line items at the prices of the catalogue \<open>ps\<close>: the sum over the
  line items, in their order and in the arithmetic of the language, of the price of the
  product (\<open>price\<close> is \<open>priceLRD\<close> or \<open>priceUSD\<close>) times the quantity.
\<close>

definition lineValue ::
  "(product \<Rightarrow> real option) \<Rightarrow> (string \<Rightarrow> real option) \<Rightarrow> (nat \<rightharpoonup> product) \<Rightarrow> req_item \<Rightarrow> real" where
  "lineValue price s2n ps it =
     (case ps (ri_product it) of
        None \<Rightarrow> 0
      | Some p \<Rightarrow> (case price p of None \<Rightarrow> 0 | Some x \<Rightarrow> x))
     * (case ToNumber s2n (ri_quantity it) of None \<Rightarrow> 0 | Some q \<Rightarrow> q)"

definition catalogValue ::
  "(real \<Rightarrow> real) \<Rightarrow> (product \<Rightarrow> real option) \<Rightarrow> (string \<Rightarrow> real option) \<Rightarrow> (nat \<rightharpoonup> product)
     \<Rightarrow> req_item list \<Rightarrow> real" where
  "catalogValue fl price s2n ps its =
     foldl (\<lambda>total it. fl (total + fl (lineValue price s2n ps it))) 0 its"

text \<open>
  A line item that a return can take from the store \<open>st\<close>: its product is in the store
  and has a name and both prices, and its quantity is truthy and, read as a number,
  positive.
\<close>

definition returnable ::
  "(string \<Rightarrow> real option) \<Rightarrow> (nat \<rightharpoonup> product) \<Rightarrow> string \<Rightarrow> req_item \<Rightarrow> bool" where
  "returnable s2n ps st it =
     (case findOne ps (ri_product it) st of
        None \<Rightarrow> False
      | Some p \<Rightarrow>
          item p \<noteq> [] \<and> priceUSD p \<noteq> None \<and> priceLRD p \<noteq> None \<and> truthy (ri_quantity it)
          \<and> (case ToNumber s2n (ri_quantity it) of None \<Rightarrow> False | Some q \<Rightarrow> 0 < q))"

text \<open>
  A payment in a form that the transaction schema takes: a store name that is not blank,
  a \<open>change\<close> that is a number or absent, one of the three currencies with its amounts
  not \<open>NaN\<close>, and for \<open>'BOTH'\<close> a \<open>changeCurrency\<close> of \<open>'LRD'\<close> or \<open>'USD'\<close>.
\<close>

definition wellFormedPayment :: "(string \<Rightarrow> real option) \<Rightarrow> body \<Rightarrow> bool" where
  "wellFormedPayment s2n b =
     (trim (store b) \<noteq> [] \<and> castNumber s2n (change b) \<noteq> None
      \<and> (currency b = JStr ''LRD'' \<and> amountReceivedLRD b \<noteq> JNum None
         \<or> currency b = JStr ''USD'' \<and> amountReceivedUSD b \<noteq> JNum None
         \<or> currency b = JStr ''BOTH'' \<and> amountReceivedLRD b \<noteq> JNum None
            \<and> amountReceivedUSD b \<noteq> JNum None
            \<and> (changeCurrency b = JStr ''LRD'' \<or> changeCurrency b = JStr ''USD'')))"

section \<open>Example data\<close>

text \<open>
  A store with two products, a string conversion that knows no string, and requests on
  them. The numbers of the examples are whole numbers that the language represents, so
  that its arithmetic on them does not round: \<open>exact\<close> is the rounding of the examples.
\<close>

definition no_s2n :: "string \<Rightarrow> real option" where
  "no_s2n s = None"

definition exact :: "real \<Rightarrow> real" where
  "exact x = x"

definition rice :: product where
  "rice = \<lparr>item = ''rice'', p_store = ''Main'', pieces = Some 10, priceUSD = Some 5,
     priceLRD = Some 985, p_totalLRD = Some 9850\<rparr>"

definition soap :: product where
  "soap = \<lparr>item = ''soap'', p_store = ''Main'', pieces = Some 2, priceUSD = Some 1,
     priceLRD = Some 197, p_totalLRD = Some 394\<rparr>"

definition example_db :: db where
  "example_db = \<lparr>products = [1 \<mapsto> rice, 2 \<mapsto> soap], transactions = [], credits = Map.empty,
     currencyRates = None, next_id = 100\<rparr>"

definition example_items :: "(nat \<times> real) list \<Rightarrow> req_item list" where
  "example_items qs = map (\<lambda>(i, q). \<lparr>ri_product = i, ri_quantity = Num q\<rparr>) qs"

definition example_sale :: "(nat \<times> real) list \<Rightarrow> jsval \<Rightarrow> jsval \<Rightarrow> jsval \<Rightarrow> jsval \<Rightarrow> jsval \<Rightarrow> body" where
  "example_sale qs cur aL aU tL r =
     empty_body\<lparr>productsSold := Some (example_items qs), currency := cur, store := ''Main'',
       customerName := ''Ada'', amountReceivedLRD := aL, amountReceivedUSD := aU,
       changeCurrency := JStr ''LRD'', totalLRD := tL, totalUSD := Num 5, currencyRate := r\<rparr>"

text \<open>A pending credit of the customer of the example, and a payment in LRD.\<close>

definition ada_credit :: credit where
  "ada_credit = \<lparr>c_store = ''Main'', c_customerName = ''Ada'',
     c_productsSold = [\<lparr>li_product = 1, productName = ''rice'', quantity = 2,
                        priceAtSale_USD = 5, priceAtSale_LRD = 985\<rparr>],
     c_totalLRD = 1970, c_totalUSD = 10, c_status = Pending, c_preferredCurrency = LRD,
     c_date = 0, c_paidAt = None, c_paymentTransaction = None\<rparr>"

definition example_credit_db :: db where
  "example_credit_db = example_db\<lparr>credits := [7 \<mapsto> ada_credit]\<rparr>"

definition example_payment :: "jsval \<Rightarrow> body" where
  "example_payment aL =
     empty_body\<lparr>store := ''Main'', currency := JStr ''LRD'', amountReceivedLRD := aL\<rparr>"

text \<open>A payment of the same credit in both currencies, which names no \<open>changeCurrency\<close>.\<close>

definition example_payment_both :: body where
  "example_payment_both =
     empty_body\<lparr>store := ''Main'', currency := JStr ''BOTH'', amountReceivedLRD := Num 2000,
       amountReceivedUSD := Num 0\<rparr>"

text \<open>A return to the store of the example.\<close>

definition example_return :: "(nat \<times> real) list \<Rightarrow> body" where
  "example_return qs =
     empty_body\<lparr>productsReturned := Some (example_items qs), store := ''Main'',
       currency := JStr ''LRD''\<rparr>"

text \<open>
  A product that is sold out: its \<open>totalLRD\<close> is still that of the five pieces it had
  at 394 LRD each.
\<close>

definition salt :: product where
  "salt = \<lparr>item = ''salt'', p_store = ''Main'', pieces = Some 0, priceUSD = Some 2,
     priceLRD = Some 394, p_totalLRD = Some 1970\<rparr>"

definition salt_db :: db where
  "salt_db = example_db\<lparr>products := [3 \<mapsto> salt]\<rparr>"

text \<open>
  A product that was uploaded from a sheet with no column of quantities, so that it has
  no \<open>pieces\<close> field, and a product that has no price in LRD yet.
\<close>

definition bulk :: product where
  "bulk = \<lparr>item = ''bulk'', p_store = ''Main'', pieces = None, priceUSD = Some 1,
     priceLRD = Some 197, p_totalLRD = None\<rparr>"

definition yam :: product where
  "yam = \<lparr>item = ''yam'', p_store = ''Main'', pieces = Some 4, priceUSD = Some 1,
     priceLRD = None, p_totalLRD = None\<rparr>"

definition bulk_db :: db where
  "bulk_db = example_db\<lparr>products := [4 \<mapsto> bulk, 5 \<mapsto> yam]\<rparr>"

text \<open>
  A sale of -5 of the first product of the example, for a total of -4925 LRD, with -1 LRD
  received.
\<close>

definition negative_sale :: body where
  "negative_sale =
     empty_body\<lparr>productsSold := Some (example_items [(1, - 5)]), currency := JStr ''LRD'',
       store := ''Main'', amountReceivedLRD := Num (- 1), totalLRD := Num (- 4925)\<rparr>"

text \<open>
  A day on which the store sold one piece for 985 LRD and took two back for 1970 LRD.
\<close>

definition rice_item :: "real \<Rightarrow> line_item" where
  "rice_item q = \<lparr>li_product = 1, productName = ''rice'', quantity = q, priceAtSale_USD = 5,
     priceAtSale_LRD = 985\<rparr>"

definition day_sale :: transaction where
  "day_sale = \<lparr>t_id = 1, t_date = 1000, t_type = Sale, t_store = ''Main'', t_currency = LRD,
     t_productsSold = [rice_item 1], t_amountReceivedLRD = Some 1000,
     t_amountReceivedUSD = Some 0, t_change = Some 15, t_changeCurrency = LRD,
     t_totalLRD = Some 985, t_totalUSD = Some 5, t_returnReason = None,
     t_originalTransaction = None\<rparr>"

definition day_return :: transaction where
  "day_return = \<lparr>t_id = 2, t_date = 2000, t_type = Return, t_store = ''Main'', t_currency = LRD,
     t_productsSold = [rice_item 2], t_amountReceivedLRD = Some 0,
     t_amountReceivedUSD = Some 0, t_change = Some 0, t_changeCurrency = LRD,
     t_totalLRD = Some 1970, t_totalUSD = Some 10, t_returnReason = Some ''damaged'',
     t_originalTransaction = None\<rparr>"

definition day_db :: db where
  "day_db = example_db\<lparr>transactions := [day_sale, day_return]\<rparr>"

section \<open>Properties\<close>

lemmas example_defs = example_sale_def example_items_def empty_body_def example_db_def
  rice_def soap_def no_s2n_def exact_def

lemmas handler_defs = findOne_def incPieces_def paymentCheck_def EXCHANGE_RATE_def js_or_def
  Transaction_save_def saleDoc_def returnDoc_def paymentDoc_def Credit_save_def creditDoc_def
  castItem_def numberPath_def trim_def js_ws_def

lemma trim_Main [simp]: "trim ''Main'' = ''Main''"
  by (simp add: trim_def js_ws_def)

subsection \<open>Payment sufficiency\<close>

lemma paymentCheck_iff:
  "paymentCheck fl s2n cur aL aU tL tU exch \<noteq> None \<longleftrightarrow> spec_insufficient fl s2n cur aL aU tL tU exch"
  by (simp add: paymentCheck_def spec_insufficient_def)

lemma paymentCheck_range:
  "paymentCheck fl s2n cur aL aU tL tU exch = Some e \<Longrightarrow>
     e \<in> {AmountLRDTooLow, AmountUSDTooLow, BothAmountsRequired, CombinedInsufficient}"
  by (simp add: paymentCheck_def split: if_splits)

lemma createTransaction_after_loop:
  assumes "store b \<noteq> []" and "productsSold b = Some its"
    and "sellItems s2n (store b) its (products dbs) [] = (Inr en, ps)"
  shows "fst (createTransaction fl s2n now b dbs)
           \<in> {Inl AmountLRDTooLow, Inl AmountUSDTooLow, Inl BothAmountsRequired, Inl CombinedInsufficient}
     \<longleftrightarrow> paymentCheck fl s2n (currency b) (amountReceivedLRD b) (amountReceivedUSD b)
                       (totalLRD b) (totalUSD b) (EXCHANGE_RATE (currencyRate b)) \<noteq> None"
proof (cases "paymentCheck fl s2n (currency b) (amountReceivedLRD b) (amountReceivedUSD b)
                       (totalLRD b) (totalUSD b) (EXCHANGE_RATE (currencyRate b))")
  case None
  with assms show ?thesis
    by (simp add: createTransaction_def split: option.splits)
next
  case (Some e)
  from paymentCheck_range[OF Some] Some assms show ?thesis
    by (auto simp add: createTransaction_def)
qed

text \<open>
  C1, amended. Once the loop over the line items has gone through, \<open>createTransaction\<close>
  answers with one of the four errors of its payment validation exactly when the payment
  is insufficient for the chosen currency: LRD, the amount in LRD is not a typed number
  or is below \<open>totalLRD\<close>; USD, the same for the amount in USD and \<open>totalUSD\<close>; BOTH,
  one of the amounts is not a typed number or the amount in LRD plus the amount in USD
  times the effective rate is below \<open>totalLRD\<close>, the sum and the product being those of
  the language, with its rounding. The effective rate is the rate of the request when
  that is truthy and 197 otherwise: an absent rate, and also a rate of zero or \<open>null\<close>,
  gives 197.
\<close>

theorem createTransaction_payment_check:
  assumes "store b \<noteq> []" and "productsSold b = Some its"
    and "sellItems s2n (store b) its (products dbs) [] = (Inr en, ps)"
  shows "fst (createTransaction fl s2n now b dbs)
           \<in> {Inl AmountLRDTooLow, Inl AmountUSDTooLow, Inl BothAmountsRequired, Inl CombinedInsufficient}
     \<longleftrightarrow> spec_insufficient fl s2n (currency b) (amountReceivedLRD b) (amountReceivedUSD b)
           (totalLRD b) (totalUSD b)
           (if truthy (currencyRate b) then currencyRate b else Num 197)"
  unfolding createTransaction_after_loop[OF assms] paymentCheck_iff EXCHANGE_RATE_def js_or_def
  by (rule refl)

lemma example_loop:
  "sellItems no_s2n ''Main'' (example_items [(1, 1)]) (products example_db) []
   = (Inr [\<lparr>r_product = 1, r_quantity = Num 1, r_productName = ''rice'', r_priceUSD = Some 5,
            r_priceLRD = Some 985\<rparr>],
      (products example_db)(1 \<mapsto> rice\<lparr>pieces := Some 9\<rparr>))"
  by (simp add: example_defs handler_defs)

lemma example_both_2:
  "fst (createTransaction exact no_s2n 0
         (example_sale [(1, 1)] (JStr ''BOTH'') (Num 500) (Num 2) (Num 1000) (Num 197)) example_db)
     = Inl CombinedInsufficient"
  by (simp add: createTransaction_def example_defs handler_defs)

lemma example_both_3:
  "\<not> isl (fst (createTransaction exact no_s2n 0
         (example_sale [(1, 1)] (JStr ''BOTH'') (Num 500) (Num 3) (Num 1000) (Num 197)) example_db))"
  by (simp add: createTransaction_def example_defs handler_defs)

lemma example_lrd_999:
  "fst (createTransaction exact no_s2n 0
         (example_sale [(1, 1)] (JStr ''LRD'') (Num 999) JUndefined (Num 1000) JUndefined) example_db)
     = Inl AmountLRDTooLow"
  by (simp add: createTransaction_def example_defs handler_defs)

lemma example_lrd_1000:
  "\<not> isl (fst (createTransaction exact no_s2n 0
         (example_sale [(1, 1)] (JStr ''LRD'') (Num 1000) JUndefined (Num 1000) JUndefined) example_db))"
  by (simp add: createTransaction_def example_defs handler_defs)

text \<open>
  The examples of the spec: for a total of 1000 LRD, 500 LRD and 2 USD at the rate 197 are
  refused and 500 LRD and 3 USD are accepted; in LRD alone 999 is refused and 1000 is
  accepted.
\<close>

theorem createTransaction_payment_check_witness:
  "fst (createTransaction exact no_s2n 0
         (example_sale [(1, 1)] (JStr ''BOTH'') (Num 500) (Num 2) (Num 1000) (Num 197)) example_db)
     = Inl CombinedInsufficient
   \<and> \<not> isl (fst (createTransaction exact no_s2n 0
         (example_sale [(1, 1)] (JStr ''BOTH'') (Num 500) (Num 3) (Num 1000) (Num 197)) example_db))
   \<and> fst (createTransaction exact no_s2n 0
         (example_sale [(1, 1)] (JStr ''LRD'') (Num 999) JUndefined (Num 1000) JUndefined) example_db)
     = Inl AmountLRDTooLow
   \<and> \<not> isl (fst (createTransaction exact no_s2n 0
         (example_sale [(1, 1)] (JStr ''LRD'') (Num 1000) JUndefined (Num 1000) JUndefined) example_db))"
proof -
  let ?b = "example_sale [(1, 1)] (JStr ''BOTH'') (Num 500) (Num 2) (Num 1000) (Num 197)"
  have s: "store ?b \<noteq> []" and p: "productsSold ?b = Some (example_items [(1, 1)])"
    and st: "store ?b = ''Main''"
    by (simp_all add: example_sale_def empty_body_def)
  note l = example_loop[folded st]
  note m = createTransaction_payment_check[OF s p l, where now = 0 and fl = exact]
  from m example_both_2 example_both_3 example_lrd_999 example_lrd_1000 show ?thesis
    by blast
qed

text \<open>
  C1 as the spec states it fails for a request whose rate is zero: with the rate of the
  caller as the effective rate, 500 LRD and 3 USD are insufficient for 1000 LRD, and
  the sale is accepted all the same, at the rate 197.
\<close>

theorem createTransaction_payment_check_counterexample:
  "spec_insufficient exact no_s2n (JStr ''BOTH'') (Num 500) (Num 3) (Num 1000) JUndefined
     (spec_effectiveRate (Num 0))
   \<and> \<not> isl (fst (createTransaction exact no_s2n 0
         (example_sale [(1, 1)] (JStr ''BOTH'') (Num 500) (Num 3) (Num 1000) (Num 0)) example_db))"
  by (simp add: spec_insufficient_def spec_effectiveRate_def createTransaction_def example_defs handler_defs)

subsection \<open>The loop over the line items\<close>

lemma sellItems_append:
  "sellItems s2n st (xs @ ys) ps acc =
     (case sellItems s2n st xs ps acc of
        (Inl e, ps1) \<Rightarrow> (Inl e, ps1)
      | (Inr acc1, ps1) \<Rightarrow> sellItems s2n st ys ps1 acc1)"
  by (induction xs arbitrary: ps acc) (auto split: option.splits)

lemma incPieces_onHand:
  assumes "incPieces s2n ps j v = Some ps'"
  shows "\<exists>d. castNumber s2n v = Some (Num d) \<and>
           (\<forall>i. onHand ps' i =
              (if i = j \<and> ps j \<noteq> None then Some ((case onHand ps j of None \<Rightarrow> 0 | Some n \<Rightarrow> n) + d)
               else onHand ps i))"
  using assms
  by (auto simp: incPieces_def onHand_def split: option.splits jsval.splits)

lemma castNumber_JNum: "castNumber s2n (JNum x) = Some (Num d) \<longleftrightarrow> x = Some d"
  by (cases x) auto

lemma sellItems_step_onHand:
  assumes "sellItems s2n st (it # its) ps acc = (Inr acc', ps')"
  shows "\<exists>p q ps1 acc1. findOne ps (ri_product it) st = Some p \<and> ToNumber s2n (ri_quantity it) = Some q
     \<and> \<not> num_lt (pieces p) (Some q)
     \<and> sellItems s2n st its ps1 acc1 = (Inr acc', ps')
     \<and> (\<forall>i. onHand ps1 i = (if i = ri_product it then Some ((case pieces p of None \<Rightarrow> 0 | Some n \<Rightarrow> n) - q)
                               else onHand ps i))"
proof -
  from assms obtain p where p: "findOne ps (ri_product it) st = Some p"
    by (auto split: option.splits)
  with assms have nlt: "\<not> num_lt (pieces p) (ToNumber s2n (ri_quantity it))"
    by (auto split: if_splits)
  with assms p obtain ps1 where ps1: "incPieces s2n ps (ri_product it) (JNum (num_neg (ToNumber s2n (ri_quantity it)))) = Some ps1"
    by (auto split: option.splits)
  from incPieces_onHand[OF ps1] obtain d where d: "castNumber s2n (JNum (num_neg (ToNumber s2n (ri_quantity it)))) = Some (Num d)"
    and oh: "\<forall>i. onHand ps1 i =
              (if i = ri_product it \<and> ps (ri_product it) \<noteq> None then Some ((case onHand ps (ri_product it) of None \<Rightarrow> 0 | Some n \<Rightarrow> n) + d)
               else onHand ps i)" by blast
  from d obtain q where q: "ToNumber s2n (ri_quantity it) = Some q" and dq: "d = - q"
    by (cases "ToNumber s2n (ri_quantity it)") (auto simp: castNumber_JNum)
  from p have psp: "ps (ri_product it) = Some p" by (auto simp: findOne_def split: option.splits if_splits)
  from assms p nlt ps1 have rest: "sellItems s2n st its ps1 (acc @ [\<lparr>r_product = ri_product it, r_quantity = ri_quantity it,
                                     r_productName = item p, r_priceUSD = priceUSD p,
                                     r_priceLRD = priceLRD p\<rparr>]) = (Inr acc', ps')" by simp
  from oh psp dq have "\<forall>i. onHand ps1 i = (if i = ri_product it then Some ((case pieces p of None \<Rightarrow> 0 | Some n \<Rightarrow> n) - q)
                               else onHand ps i)" by (simp add: onHand_def)
  with p q nlt rest show ?thesis by auto
qed

lemma requested_Cons:
  "requested s2n i (it # its) =
     (if ri_product it = i then (case ToNumber s2n (ri_quantity it) of None \<Rightarrow> 0 | Some q \<Rightarrow> q) else 0)
     + requested s2n i its"
  by (simp add: requested_def)

lemma sellItems_onHand:
  assumes "sellItems s2n st its ps acc = (Inr acc', ps')" and "onHand ps i = Some n"
  shows "onHand ps' i = Some (n - requested s2n i its)"
  using assms
proof (induction its arbitrary: ps acc n)
  case Nil
  then show ?case by (simp add: requested_def)
next
  case (Cons it its)
  from sellItems_step_onHand[OF Cons.prems(1)] obtain p q ps1 acc1 where
    p: "findOne ps (ri_product it) st = Some p" and q: "ToNumber s2n (ri_quantity it) = Some q"
    and rest: "sellItems s2n st its ps1 acc1 = (Inr acc', ps')"
    and oh: "\<forall>i. onHand ps1 i = (if i = ri_product it then Some ((case pieces p of None \<Rightarrow> 0 | Some n \<Rightarrow> n) - q)
                               else onHand ps i)" by blast
  from p have pp: "onHand ps (ri_product it) = pieces p"
    by (auto simp: findOne_def onHand_def split: option.splits if_splits)
  show ?case
  proof (cases "i = ri_product it")
    case True
    with oh pp Cons.prems(2) have "onHand ps1 i = Some (n - q)" by simp
    from Cons.IH[OF rest this] True q show ?thesis by (simp add: requested_Cons)
  next
    case False
    with oh Cons.prems(2) have "onHand ps1 i = Some n" by simp
    from Cons.IH[OF rest this] False show ?thesis by (simp add: requested_Cons)
  qed
qed

lemma sellItems_nonneg:
  assumes "sellItems s2n st its ps acc = (Inr acc', ps')" and "onHand ps i = Some n" and "0 \<le> n"
  shows "\<exists>n'. onHand ps' i = Some n' \<and> 0 \<le> n'"
  using assms
proof (induction its arbitrary: ps acc n)
  case Nil
  then show ?case by simp
next
  case (Cons it its)
  from sellItems_step_onHand[OF Cons.prems(1)] obtain p q ps1 acc1 where
    p: "findOne ps (ri_product it) st = Some p" and q: "ToNumber s2n (ri_quantity it) = Some q"
    and nlt: "\<not> num_lt (pieces p) (Some q)"
    and rest: "sellItems s2n st its ps1 acc1 = (Inr acc', ps')"
    and oh: "\<forall>i. onHand ps1 i = (if i = ri_product it then Some ((case pieces p of None \<Rightarrow> 0 | Some n \<Rightarrow> n) - q)
                               else onHand ps i)" by blast
  from p have pp: "onHand ps (ri_product it) = pieces p"
    by (auto simp: findOne_def onHand_def split: option.splits if_splits)
  show ?case
  proof (cases "i = ri_product it")
    case True
    with oh pp Cons.prems(2) nlt have "onHand ps1 i = Some (n - q)" and "0 \<le> n - q" by simp_all
    from Cons.IH[OF rest this] show ?thesis .
  next
    case False
    with oh Cons.prems(2) have "onHand ps1 i = Some n" by simp
    from Cons.IH[OF rest this Cons.prems(3)] show ?thesis .
  qed
qed

lemma sellItems_prefix:
  assumes "sellItems s2n st its ps acc = (Inr acc', ps')"
  shows "\<exists>acc1. sellItems s2n st (take k its) ps acc = (Inr acc1, snd (sellItems s2n st (take k its) ps acc))
       \<and> sellItems s2n st (drop k its) (snd (sellItems s2n st (take k its) ps acc)) acc1 = (Inr acc', ps')"
proof -
  have "sellItems s2n st (take k its @ drop k its) ps acc = (Inr acc', ps')" using assms by simp
  then show ?thesis
    unfolding sellItems_append by (auto split: prod.splits sum.splits)
qed

subsection \<open>Stock after a sale or a credit\<close>

lemma createTransaction_Inr:
  assumes "createTransaction fl s2n now b dbs = (Inr t, dbs')"
  shows "store b \<noteq> [] \<and> (\<exists>its en. productsSold b = Some its
      \<and> sellItems s2n (store b) its (products dbs) [] = (Inr en, products dbs')
      \<and> transactions dbs' = transactions dbs @ [t] \<and> credits dbs' = credits dbs)"
  using assms
  by (auto simp: createTransaction_def split: if_splits option.splits prod.splits sum.splits)

lemma createCredit_Inr:
  assumes "createCredit s2n now b dbs = (Inr c, dbs')"
  shows "store b \<noteq> [] \<and> (\<exists>its en. productsSold b = Some its
      \<and> sellItems s2n (store b) its (products dbs) [] = (Inr en, products dbs')
      \<and> transactions dbs' = transactions dbs)"
  using assms
  by (auto simp: createCredit_def split: if_splits option.splits prod.splits sum.splits)

lemma productsAfter_nonneg:
  assumes "sellItems s2n st its ps [] = (Inr en, ps')" and "onHand ps i = Some n" and "0 \<le> n"
  shows "\<exists>m. onHand (productsAfter s2n st its ps k) i = Some m \<and> 0 \<le> m"
proof -
  from sellItems_prefix[OF assms(1), of k] obtain acc1 where
    "sellItems s2n st (take k its) ps [] = (Inr acc1, productsAfter s2n st its ps k)"
    by (auto simp: productsAfter_def)
  from sellItems_nonneg[OF this assms(2,3)] show ?thesis .
qed

text \<open>
  Where the quantity on hand is known, the loop keeps the books: after a successful
  \<open>createTransaction\<close> or \<open>createCredit\<close>, a product whose quantity on hand was known
  has lost exactly the sum of the quantities of the line items that request it; and if
  that quantity was not negative before, it is not negative after any number of rounds
  of the loop over the line items.
\<close>

lemma known_stock_is_conserved:
  assumes ok: "createTransaction fl s2n now b dbs = (Inr t, dbs') \<or>
               createCredit s2n now b dbs = (Inr c, dbs')"
    and its: "productsSold b = Some its"
    and n: "onHand (products dbs) i = Some n"
  shows "(\<exists>n'. onHand (products dbs') i = Some n' \<and> n - n' = requested s2n i its)
       \<and> (0 \<le> n \<longrightarrow>
            (\<forall>k. \<exists>m. onHand (productsAfter s2n (store b) its (products dbs) k) i = Some m \<and> 0 \<le> m))"
proof -
  from ok its obtain en where
    l: "sellItems s2n (store b) its (products dbs) [] = (Inr en, products dbs')"
    using createTransaction_Inr createCredit_Inr by (metis option.inject)
  from sellItems_onHand[OF l n] have "onHand (products dbs') i = Some (n - requested s2n i its)" .
  moreover have "0 \<le> n \<longrightarrow>
            (\<forall>k. \<exists>m. onHand (productsAfter s2n (store b) its (products dbs) k) i = Some m \<and> 0 \<le> m)"
    using productsAfter_nonneg[OF l n] by blast
  ultimately show ?thesis by simp
qed

lemma result_Inr: "\<not> isl (fst r) \<Longrightarrow> r = (Inr (projr (fst r)), snd r)"
  by (cases r; cases "fst r") auto

lemma example_onHand: "onHand (products example_db) 1 = Some 10"
  by (simp add: onHand_def example_db_def rice_def)

lemma bulk_sale:
  "createTransaction exact no_s2n 0
     (example_sale [(4, 3)] (JStr ''LRD'') (Num 591) JUndefined (Num 591) JUndefined) bulk_db
   = (Inr \<lparr>t_id = 100, t_date = 0, t_type = Sale, t_store = ''Main'', t_currency = LRD,
            t_productsSold = [\<lparr>li_product = 4, productName = ''bulk'', quantity = 3,
                                priceAtSale_USD = 1, priceAtSale_LRD = 197\<rparr>],
            t_amountReceivedLRD = Some 591, t_amountReceivedUSD = Some 0, t_change = Some 0,
            t_changeCurrency = LRD, t_totalLRD = Some 591, t_totalUSD = Some 5,
            t_returnReason = None, t_originalTransaction = None\<rparr>,
      bulk_db\<lparr>products := (products bulk_db)(4 \<mapsto> bulk\<lparr>pieces := Some (- 3)\<rparr>),
              transactions :=
                [\<lparr>t_id = 100, t_date = 0, t_type = Sale, t_store = ''Main'', t_currency = LRD,
                   t_productsSold = [\<lparr>li_product = 4, productName = ''bulk'', quantity = 3,
                                       priceAtSale_USD = 1, priceAtSale_LRD = 197\<rparr>],
                   t_amountReceivedLRD = Some 591, t_amountReceivedUSD = Some 0,
                   t_change = Some 0, t_changeCurrency = LRD, t_totalLRD = Some 591,
                   t_totalUSD = Some 5, t_returnReason = None,
                   t_originalTransaction = None\<rparr>],
              next_id := 101\<rparr>)"
  by (simp add: createTransaction_def bulk_db_def bulk_def yam_def example_defs handler_defs)

lemma bulk_credit:
  "\<not> isl (fst (createCredit no_s2n 0
       (example_sale [(4, 3)] (JStr ''LRD'') (Num 591) JUndefined (Num 591) JUndefined) bulk_db))
   \<and> products (snd (createCredit no_s2n 0
       (example_sale [(4, 3)] (JStr ''LRD'') (Num 591) JUndefined (Num 591) JUndefined) bulk_db))
     = (products bulk_db)(4 \<mapsto> bulk\<lparr>pieces := Some (- 3)\<rparr>)"
  by (simp add: createCredit_def bulk_db_def bulk_def yam_def example_defs handler_defs)

text \<open>
  C7, at the input where the code departs from it. The product \<open>bulk\<close> has no
  \<open>pieces\<close> field. The stock check of the loop compares \<open>undefined < 3\<close>, which is
  false, and the decrement counts from zero: a sale and a credit of 3 pieces are both
  accepted, and each leaves -3 on hand.
\<close>

theorem sale_of_uncounted_stock:
  "onHand (products bulk_db) 4 = None
   \<and> \<not> isl (fst (createTransaction exact no_s2n 0
        (example_sale [(4, 3)] (JStr ''LRD'') (Num 591) JUndefined (Num 591) JUndefined) bulk_db))
   \<and> onHand (products (snd (createTransaction exact no_s2n 0
        (example_sale [(4, 3)] (JStr ''LRD'') (Num 591) JUndefined (Num 591) JUndefined) bulk_db))) 4
     = Some (- 3)
   \<and> \<not> isl (fst (createCredit no_s2n 0
        (example_sale [(4, 3)] (JStr ''LRD'') (Num 591) JUndefined (Num 591) JUndefined) bulk_db))
   \<and> onHand (products (snd (createCredit no_s2n 0
        (example_sale [(4, 3)] (JStr ''LRD'') (Num 591) JUndefined (Num 591) JUndefined) bulk_db))) 4
     = Some (- 3)"
  unfolding bulk_sale using bulk_credit
  by (simp add: onHand_def bulk_db_def bulk_def)

text \<open>The quantity on hand that the sale leaves is a negative number.\<close>

theorem sale_of_uncounted_stock_witness:
  "\<exists>n. onHand (products (snd (createTransaction exact no_s2n 0
        (example_sale [(4, 3)] (JStr ''LRD'') (Num 591) JUndefined (Num 591) JUndefined) bulk_db))) 4
      = Some n \<and> n < 0"
  using sale_of_uncounted_stock by simp

subsection \<open>Failures part of the way\<close>

lemma sellItems_fails_at:
  assumes "sellItems s2n st pre ps0 acc = (Inr en, ps)"
  shows "findOne ps (ri_product it) st = None \<Longrightarrow>
           sellItems s2n st (pre @ it # rest) ps0 acc = (Inl (ProductNotFound (ri_product it) st), ps)"
    and "findOne ps (ri_product it) st = Some p \<Longrightarrow> num_lt (pieces p) (ToNumber s2n (ri_quantity it)) \<Longrightarrow>
           sellItems s2n st (pre @ it # rest) ps0 acc = (Inl (InsufficientQuantity (item p)), ps)"
  using assms by (simp_all add: sellItems_append)

lemma createTransaction_loop_error:
  assumes "store b \<noteq> []" and "productsSold b = Some its"
    and "sellItems s2n (store b) its (products dbs) [] = (Inl e, ps)"
  shows "createTransaction fl s2n now b dbs = (Inl e, dbs\<lparr>products := ps\<rparr>)"
  using assms by (simp add: createTransaction_def)

lemma createCredit_loop_error:
  assumes "store b \<noteq> []" and "trim (customerName b) \<noteq> []" and "productsSold b = Some its"
    and "sellItems s2n (store b) its (products dbs) [] = (Inl e, ps)"
  shows "createCredit s2n now b dbs = (Inl e, dbs\<lparr>products := ps\<rparr>)"
proof -
  from assms(2) have "customerName b \<noteq> []" by (auto simp: trim_def)
  with assms show ?thesis by (simp add: createCredit_def)
qed

lemma createTransaction_payment_error:
  assumes "store b \<noteq> []" and "productsSold b = Some its"
    and "sellItems s2n (store b) its (products dbs) [] = (Inr en, ps)"
    and "paymentCheck fl s2n (currency b) (amountReceivedLRD b) (amountReceivedUSD b)
           (totalLRD b) (totalUSD b) (EXCHANGE_RATE (currencyRate b)) = Some e"
  shows "createTransaction fl s2n now b dbs = (Inl e, dbs\<lparr>products := ps\<rparr>)"
  using assms by (simp add: createTransaction_def)

lemma trim_nonempty: "trim s \<noteq> [] \<Longrightarrow> s \<noteq> []"
  by (auto simp: trim_def)

lemma castNumber_Num [simp]: "castNumber s2n (Num r) = Some (Num r)"
  by simp

lemma example_trim: "trim ''Main'' \<noteq> []" "trim ''Ada'' \<noteq> []"
  by (simp_all add: trim_def js_ws_def)

lemma example_findOne: "findOne (products example_db) 1 ''Main'' = Some rice"
  "findOne (products example_db) 2 ''Main'' = Some soap"
  by (simp_all add: findOne_def example_db_def rice_def soap_def)

lemma example_loop_3:
  "sellItems no_s2n ''Main'' (example_items [(1, 3)]) (products example_db) []
   = (Inr [\<lparr>r_product = 1, r_quantity = Num 3, r_productName = ''rice'', r_priceUSD = Some 5,
            r_priceLRD = Some 985\<rparr>],
      (products example_db)(1 \<mapsto> rice\<lparr>pieces := Some 7\<rparr>))"
  by (simp add: example_defs handler_defs)

text \<open>
  C2. Let the loop have gone through the line items \<open>pre\<close> and left the products
  \<open>ps\<close>. If the next line item names a product that the store does not have, or asks
  for more than is on hand, \<open>createTransaction\<close> and \<open>createCredit\<close> answer with the
  error and leave the products \<open>ps\<close>; if \<open>pre\<close> are all the line items and the payment
  validation fails, \<open>createTransaction\<close> answers with its error and leaves the products
  \<open>ps\<close>. In \<open>ps\<close> every product whose quantity was known has lost what the line items
  \<open>pre\<close> request: nothing is put back.
\<close>

theorem failure_keeps_decrements:
  assumes st: "store b \<noteq> []"
    and pre: "sellItems s2n (store b) pre (products dbs) [] = (Inr en, ps)"
  shows "(productsSold b = Some (pre @ it # rest) \<and> findOne ps (ri_product it) (store b) = None
            \<longrightarrow> createTransaction fl s2n now b dbs
                  = (Inl (ProductNotFound (ri_product it) (store b)), dbs\<lparr>products := ps\<rparr>)
              \<and> (trim (customerName b) \<noteq> [] \<longrightarrow>
                   createCredit s2n now b dbs
                     = (Inl (ProductNotFound (ri_product it) (store b)), dbs\<lparr>products := ps\<rparr>)))
       \<and> (productsSold b = Some (pre @ it # rest) \<and> findOne ps (ri_product it) (store b) = Some p
            \<and> num_lt (pieces p) (ToNumber s2n (ri_quantity it))
            \<longrightarrow> createTransaction fl s2n now b dbs
                  = (Inl (InsufficientQuantity (item p)), dbs\<lparr>products := ps\<rparr>)
              \<and> (trim (customerName b) \<noteq> [] \<longrightarrow>
                   createCredit s2n now b dbs
                     = (Inl (InsufficientQuantity (item p)), dbs\<lparr>products := ps\<rparr>)))
       \<and> (productsSold b = Some pre
            \<and> paymentCheck fl s2n (currency b) (amountReceivedLRD b) (amountReceivedUSD b)
                 (totalLRD b) (totalUSD b) (EXCHANGE_RATE (currencyRate b)) = Some e
            \<longrightarrow> createTransaction fl s2n now b dbs = (Inl e, dbs\<lparr>products := ps\<rparr>))
       \<and> (\<forall>j n. onHand (products dbs) j = Some n \<longrightarrow> onHand ps j = Some (n - requested s2n j pre))"
proof (intro conjI impI allI)
  fix j n assume "onHand (products dbs) j = Some n"
  from sellItems_onHand[OF pre this] show "onHand ps j = Some (n - requested s2n j pre)" .
next
  assume a: "productsSold b = Some (pre @ it # rest) \<and> findOne ps (ri_product it) (store b) = None"
  then have l: "sellItems s2n (store b) (pre @ it # rest) (products dbs) []
      = (Inl (ProductNotFound (ri_product it) (store b)), ps)"
    using sellItems_fails_at(1)[OF pre] by blast
  from createTransaction_loop_error[OF st _ l] a
  show "createTransaction fl s2n now b dbs
      = (Inl (ProductNotFound (ri_product it) (store b)), dbs\<lparr>products := ps\<rparr>)" by blast
  assume c: "trim (customerName b) \<noteq> []"
  from createCredit_loop_error[OF st c _ l] a
  show "createCredit s2n now b dbs
      = (Inl (ProductNotFound (ri_product it) (store b)), dbs\<lparr>products := ps\<rparr>)" by blast
next
  assume a: "productsSold b = Some (pre @ it # rest) \<and> findOne ps (ri_product it) (store b) = Some p
            \<and> num_lt (pieces p) (ToNumber s2n (ri_quantity it))"
  then have l: "sellItems s2n (store b) (pre @ it # rest) (products dbs) []
      = (Inl (InsufficientQuantity (item p)), ps)"
    using sellItems_fails_at(2)[OF pre] by blast
  from createTransaction_loop_error[OF st _ l] a
  show "createTransaction fl s2n now b dbs
      = (Inl (InsufficientQuantity (item p)), dbs\<lparr>products := ps\<rparr>)" by blast
  assume c: "trim (customerName b) \<noteq> []"
  from createCredit_loop_error[OF st c _ l] a
  show "createCredit s2n now b dbs
      = (Inl (InsufficientQuantity (item p)), dbs\<lparr>products := ps\<rparr>)" by blast
next
  assume a: "productsSold b = Some pre
            \<and> paymentCheck fl s2n (currency b) (amountReceivedLRD b) (amountReceivedUSD b)
                 (totalLRD b) (totalUSD b) (EXCHANGE_RATE (currencyRate b)) = Some e"
  with createTransaction_payment_error[OF st _ pre] 
  show "createTransaction fl s2n now b dbs = (Inl e, dbs\<lparr>products := ps\<rparr>)" by blast
qed

text \<open>
  A sale and a credit of 3 of the first product and 5 of the second, which has 2: both
  are refused for the second product, and the first product is left with 7 of its 10.
\<close>

theorem failure_keeps_decrements_witness:
  "createTransaction exact no_s2n 0
     (example_sale [(1, 3), (2, 5)] (JStr ''LRD'') (Num 6000) JUndefined (Num 3940) JUndefined)
     example_db
   = (Inl (InsufficientQuantity ''soap''),
      example_db\<lparr>products := (products example_db)(1 \<mapsto> rice\<lparr>pieces := Some 7\<rparr>)\<rparr>)
   \<and> createCredit no_s2n 0
     (example_sale [(1, 3), (2, 5)] (JStr ''LRD'') (Num 6000) JUndefined (Num 3940) JUndefined)
     example_db
   = (Inl (InsufficientQuantity ''soap''),
      example_db\<lparr>products := (products example_db)(1 \<mapsto> rice\<lparr>pieces := Some 7\<rparr>)\<rparr>)
   \<and> onHand (products example_db) 1 = Some 10
   \<and> onHand ((products example_db)(1 \<mapsto> rice\<lparr>pieces := Some 7\<rparr>)) 1 = Some 7"
proof -
  let ?b = "example_sale [(1, 3), (2, 5)] (JStr ''LRD'') (Num 6000) JUndefined (Num 3940) JUndefined"
  let ?ps = "(products example_db)(1 \<mapsto> rice\<lparr>pieces := Some 7\<rparr>)"
  have st: "store ?b = ''Main''" and s: "store ?b \<noteq> []"
    and c: "trim (customerName ?b) \<noteq> []"
    and its: "productsSold ?b = Some (example_items [(1, 3)] @ \<lparr>ri_product = 2, ri_quantity = Num 5\<rparr> # [])"
    by (simp_all add: example_sale_def example_items_def empty_body_def trim_def js_ws_def)
  have f: "findOne ?ps (ri_product \<lparr>ri_product = 2, ri_quantity = Num 5\<rparr>) (store ?b) = Some soap"
    unfolding st by (simp add: findOne_def example_db_def soap_def)
  have lt: "num_lt (pieces soap) (ToNumber no_s2n (ri_quantity \<lparr>ri_product = 2, ri_quantity = Num 5\<rparr>))"
    by (simp add: soap_def)
  note t = failure_keeps_decrements[OF s example_loop_3[folded st],
      where it = "\<lparr>ri_product = 2, ri_quantity = Num 5\<rparr>" and rest = "[]" and p = soap
        and now = 0 and fl = exact]
  from t its f lt c have "createTransaction exact no_s2n 0 ?b example_db
      = (Inl (InsufficientQuantity (item soap)), example_db\<lparr>products := ?ps\<rparr>)"
    and "createCredit no_s2n 0 ?b example_db
      = (Inl (InsufficientQuantity (item soap)), example_db\<lparr>products := ?ps\<rparr>)"
    by blast+
  then show ?thesis by (simp add: soap_def onHand_def example_db_def rice_def)
qed

subsection \<open>Quantities that are not positive\<close>

text \<open>
  C9. A line item with a quantity \<open>q \<le> 0\<close> of a product with a quantity on hand
  \<open>n \<ge> 0\<close> passes the stock check of the loop. A request in LRD of that one line item,
  paid in full, is accepted as a sale and as a credit, and leaves \<open>n - q\<close> on hand: as
  much as before or, when \<open>q < 0\<close>, more. \<open>createReturnTransaction\<close> refuses the same
  line item.
\<close>

theorem nonpositive_quantity_adds_stock:
  assumes p: "findOne (products dbs) i st = Some p" and n: "pieces p = Some n" and n0: "0 \<le> n"
    and q: "q \<le> 0" and pay: "due \<le> a" and st: "trim st \<noteq> []" and cn: "trim cn \<noteq> []"
    and valid: "item p \<noteq> []" "priceUSD p = Some u" "priceLRD p = Some l"
    and b: "b = empty_body\<lparr>store := st, customerName := cn,
                  productsSold := Some [\<lparr>ri_product = i, ri_quantity = Num q\<rparr>],
                  productsReturned := Some [\<lparr>ri_product = i, ri_quantity = Num q\<rparr>],
                  currency := JStr ''LRD'', amountReceivedLRD := Num a, totalLRD := Num due\<rparr>"
  shows "\<not> num_lt (pieces p) (ToNumber s2n (Num q))
       \<and> (\<exists>t dbs'. createTransaction fl s2n now b dbs = (Inr t, dbs')
             \<and> onHand (products dbs') i = Some (n - q))
       \<and> (\<exists>c dbs'. createCredit s2n now b dbs = (Inr c, dbs')
             \<and> onHand (products dbs') i = Some (n - q))
       \<and> n \<le> n - q \<and> (q < 0 \<longrightarrow> n < n - q)
       \<and> createReturnTransaction fl s2n now b dbs = (Inl (InvalidQuantity (item p)), dbs)"
proof -
  from st cn have st': "st \<noteq> []" and cn': "cn \<noteq> []" by (auto dest: trim_nonempty)
  from p have pi: "products dbs i = Some p"
    by (auto simp: findOne_def split: option.splits if_splits)
  have c1: "\<not> num_lt (pieces p) (ToNumber s2n (Num q))" using n n0 q by simp
  have loop: "sellItems s2n st [\<lparr>ri_product = i, ri_quantity = Num q\<rparr>] (products dbs) []
      = (Inr [\<lparr>r_product = i, r_quantity = Num q, r_productName = item p,
               r_priceUSD = Some u, r_priceLRD = Some l\<rparr>],
         (products dbs)(i \<mapsto> p\<lparr>pieces := Some (n - q)\<rparr>))"
    using p pi n n0 q valid by (simp add: incPieces_def)
  have items: "castItems s2n [\<lparr>r_product = i, r_quantity = Num q, r_productName = item p,
               r_priceUSD = Some u, r_priceLRD = Some l\<rparr>]
      = Some [\<lparr>li_product = i, productName = item p, quantity = q, priceAtSale_USD = u,
               priceAtSale_LRD = l\<rparr>]"
    using valid by (simp add: castItem_def numberPath_def)
  have c2: "\<exists>t dbs'. createTransaction fl s2n now b dbs = (Inr t, dbs')
             \<and> onHand (products dbs') i = Some (n - q)"
    using st st' pay loop items
    by (simp add: b empty_body_def createTransaction_def paymentCheck_def Transaction_save_def
        saleDoc_def numberPath_def js_or_def onHand_def)
  have c3: "\<exists>c dbs'. createCredit s2n now b dbs = (Inr c, dbs')
             \<and> onHand (products dbs') i = Some (n - q)"
    using st' cn cn' loop items
    by (simp add: b empty_body_def createCredit_def Credit_save_def creditDoc_def numberPath_def
        js_or_def onHand_def)
  have c4: "createReturnTransaction fl s2n now b dbs = (Inl (InvalidQuantity (item p)), dbs)"
    using st' p q by (simp add: b empty_body_def createReturnTransaction_def)
  from c1 c2 c3 c4 q show ?thesis by simp
qed

text \<open>A sale of -5 of the first product of the example leaves 15 where 10 were.\<close>

theorem nonpositive_quantity_adds_stock_witness:
  "\<not> isl (fst (createTransaction exact no_s2n 0
       (empty_body\<lparr>store := ''Main'', customerName := ''Ada'',
                  productsSold := Some [\<lparr>ri_product = 1, ri_quantity = Num (- 5)\<rparr>],
                  productsReturned := Some [\<lparr>ri_product = 1, ri_quantity = Num (- 5)\<rparr>],
                  currency := JStr ''LRD'', amountReceivedLRD := Num 0, totalLRD := Num 0\<rparr>)
       example_db))
   \<and> onHand (products (snd (createTransaction exact no_s2n 0
       (empty_body\<lparr>store := ''Main'', customerName := ''Ada'',
                  productsSold := Some [\<lparr>ri_product = 1, ri_quantity = Num (- 5)\<rparr>],
                  productsReturned := Some [\<lparr>ri_product = 1, ri_quantity = Num (- 5)\<rparr>],
                  currency := JStr ''LRD'', amountReceivedLRD := Num 0, totalLRD := Num 0\<rparr>)
       example_db))) 1 = Some 15
   \<and> onHand (products example_db) 1 = Some 10"
proof -
  have r: "pieces rice = Some 10" "item rice \<noteq> []" "priceUSD rice = Some 5" "priceLRD rice = Some 985"
    by (simp_all add: rice_def)
  from nonpositive_quantity_adds_stock[OF example_findOne(1) r(1) _ _ _ example_trim r(2,3,4) refl,
      where q = "- 5" and due = 0 and a = 0 and ?s2n = no_s2n and now = 0 and fl = exact]
  show ?thesis by (auto simp: onHand_def example_db_def rice_def)
qed

subsection \<open>Settling a credit\<close>

lemma castItem_rawOfItem:
  "castItem s2n (rawOfItem li) = (if productName li = [] then None else Some li)"
  by (simp add: castItem_def rawOfItem_def numberPath_def)

lemma castItems_rawOfItem:
  "castItems s2n (map rawOfItem lis) = Some lis' \<Longrightarrow> lis' = lis"
  by (induction lis arbitrary: lis')
     (auto simp: castItem_rawOfItem split: if_splits Option.bind_splits)

lemma castItems_rawOfItem_Some:
  "\<forall>li \<in> set lis. productName li \<noteq> [] \<Longrightarrow> castItems s2n (map rawOfItem lis) = Some lis"
  by (induction lis) (auto simp: castItem_rawOfItem)

lemma Transaction_save_paymentDoc:
  assumes "Transaction_save s2n oid now (paymentDoc c b) = Some t"
  shows "t_id t = oid \<and> t_date t = now \<and> t_type t = Sale \<and> t_productsSold t = c_productsSold c
       \<and> t_totalLRD t = Some (c_totalLRD c) \<and> t_totalUSD t = Some (c_totalUSD c)"
proof -
  from assms obtain lis where "castItems s2n (map rawOfItem (c_productsSold c)) = Some lis"
    and "t_productsSold t = lis" and "t_id t = oid \<and> t_date t = now \<and> t_type t = Sale
       \<and> t_totalLRD t = Some (c_totalLRD c) \<and> t_totalUSD t = Some (c_totalUSD c)"
    by (auto simp: Transaction_save_def paymentDoc_def numberPath_def
             split: Option.bind_splits if_splits)
  with castItems_rawOfItem show ?thesis by blast
qed

lemma findPendingCredit_Some:
  "findPendingCredit cs i st = Some c \<longleftrightarrow> cs i = Some c \<and> c_store c = st \<and> c_status c = Pending"
  by (auto simp: findPendingCredit_def split: option.splits)

lemma findPendingCredit_None:
  "findPendingCredit cs i st = None \<longleftrightarrow> \<not> (\<exists>c. cs i = Some c \<and> c_store c = st \<and> c_status c = Pending)"
  by (auto simp: findPendingCredit_def split: option.splits)

lemma payCredit_not_found:
  assumes "store b \<noteq> []"
  shows "fst (payCredit fl s2n now cid b dbs) = Inl PendingCreditNotFound
     \<longleftrightarrow> findPendingCredit (credits dbs) cid (store b) = None"
proof (cases "findPendingCredit (credits dbs) cid (store b)")
  case None
  with assms show ?thesis by (simp add: payCredit_def)
next
  case (Some c)
  have "fst (payCredit fl s2n now cid b dbs) \<noteq> Inl PendingCreditNotFound"
  proof (cases "paymentCheck fl s2n (currency b) (amountReceivedLRD b) (amountReceivedUSD b)
                  (Num (c_totalLRD c)) (Num (c_totalUSD c)) (EXCHANGE_RATE (currencyRate b))")
    case None
    with Some assms show ?thesis
      by (simp add: payCredit_def Let_def split: option.splits)
  next
    case (Some e)
    from paymentCheck_range[OF Some] Some \<open>findPendingCredit (credits dbs) cid (store b) = Some c\<close> assms
    show ?thesis by (auto simp: payCredit_def)
  qed
  with Some show ?thesis by simp
qed

lemma payCredit_pending:
  assumes st: "store b \<noteq> []"
    and c: "credits dbs cid = Some c \<and> c_store c = store b \<and> c_status c = Pending"
    and suff: "\<not> spec_insufficient fl s2n (currency b) (amountReceivedLRD b) (amountReceivedUSD b)
                  (Num (c_totalLRD c)) (Num (c_totalUSD c)) (EXCHANGE_RATE (currencyRate b))"
    and sv: "Transaction_save s2n (next_id dbs) now (paymentDoc c b) = Some t"
  shows "payCredit fl s2n now cid b dbs
                  = (Inr (c\<lparr>c_status := Paid, c_paidAt := Some now,
                             c_paymentTransaction := Some (t_id t)\<rparr>, t),
                     dbs\<lparr>transactions := transactions dbs @ [t],
                         credits := (credits dbs)
                           (cid \<mapsto> c\<lparr>c_status := Paid, c_paidAt := Some now,
                                       c_paymentTransaction := Some (t_id t)\<rparr>),
                         next_id := Suc (next_id dbs)\<rparr>)
       \<and> t_type t = Sale \<and> t_productsSold t = c_productsSold c
       \<and> t_totalLRD t = Some (c_totalLRD c) \<and> t_totalUSD t = Some (c_totalUSD c)"
proof -
  from c have f: "findPendingCredit (credits dbs) cid (store b) = Some c"
    by (simp add: findPendingCredit_Some)
  from suff have pc: "paymentCheck fl s2n (currency b) (amountReceivedLRD b) (amountReceivedUSD b)
                  (Num (c_totalLRD c)) (Num (c_totalUSD c)) (EXCHANGE_RATE (currencyRate b)) = None"
    using paymentCheck_iff by blast
  from st f pc sv Transaction_save_paymentDoc[OF sv] show ?thesis
    by (simp add: payCredit_def Let_def)
qed

text \<open>
  The schema takes the transaction of a payment that is well formed and not insufficient,
  in each of the three currencies.
\<close>

lemma typed_amount:
  assumes "is_number v" and "v \<noteq> JNum None"
  shows "\<exists>a. v = Num a"
  using assms by (cases v) auto

lemma numberPath_change:
  assumes "castNumber s2n v \<noteq> None"
  shows "numberPath s2n (Some 0) False v \<noteq> None"
  using assms by (auto simp: numberPath_def Let_def)

lemma Transaction_save_amounts:
  assumes names: "castItems s2n (d_productsSold d) \<noteq> None"
    and cur: "castCurrency (d_currency d) = Some cur"
    and cc: "castCurrency (d_changeCurrency d) = Some cc" "cc \<noteq> BOTH"
    and aL: "d_amountReceivedLRD d = Num x" and aU: "d_amountReceivedUSD d = Num y"
    and ch: "castNumber s2n (d_change d) \<noteq> None"
    and tot: "d_totalLRD d = Num l" "d_totalUSD d = Num u"
    and st: "trim (d_store d) \<noteq> []"
  shows "Transaction_save s2n oid now d \<noteq> None"
proof -
  from names obtain lis where lis: "castItems s2n (d_productsSold d) = Some lis" by blast
  from numberPath_change[OF ch] obtain c where
    c: "numberPath s2n (Some 0) False (d_change d) = Some c" by blast
  from cur have c1: "(case d_currency d of JUndefined \<Rightarrow> Some LRD | v \<Rightarrow> castCurrency v) = Some cur"
    by (cases "d_currency d") auto
  from cc have c2: "(case d_changeCurrency d of JUndefined \<Rightarrow> Some cur | v \<Rightarrow> castCurrency v) = Some cc"
    by (cases "d_changeCurrency d") auto
  have n: "\<And>r. numberPath s2n (Some 0) r (Num x) = Some (Some x)"
    "\<And>r. numberPath s2n (Some 0) r (Num y) = Some (Some y)"
    "numberPath s2n (Some 0) False (Num l) = Some (Some l)"
    "numberPath s2n (Some 0) False (Num u) = Some (Some u)"
    by (simp_all add: numberPath_def)
  show ?thesis
    using cc(2) st by (simp add: Transaction_save_def c1 c2 lis aL aU c tot n)
qed

lemma Transaction_save_payment:
  assumes names: "\<forall>li \<in> set (c_productsSold c). productName li \<noteq> []"
    and wf: "wellFormedPayment s2n b"
    and suff: "\<not> spec_insufficient fl s2n (currency b) (amountReceivedLRD b) (amountReceivedUSD b)
                  tL tU exch"
  shows "Transaction_save s2n oid now (paymentDoc c b) \<noteq> None"
proof -
  from wf have st: "trim (store b) \<noteq> []" and ch: "castNumber s2n (change b) \<noteq> None"
    by (simp_all add: wellFormedPayment_def)
  have items: "castItems s2n (d_productsSold (paymentDoc c b)) \<noteq> None"
    using castItems_rawOfItem_Some[OF names] by (simp add: paymentDoc_def)
  have rest: "castNumber s2n (d_change (paymentDoc c b)) \<noteq> None"
    "d_totalLRD (paymentDoc c b) = Num (c_totalLRD c)"
    "d_totalUSD (paymentDoc c b) = Num (c_totalUSD c)"
    "trim (d_store (paymentDoc c b)) \<noteq> []"
    using st ch by (simp_all add: paymentDoc_def)
  from wf consider
      (lrd) "currency b = JStr ''LRD''" "amountReceivedLRD b \<noteq> JNum None"
    | (usd) "currency b = JStr ''USD''" "amountReceivedUSD b \<noteq> JNum None"
    | (both) "currency b = JStr ''BOTH''" "amountReceivedLRD b \<noteq> JNum None"
        "amountReceivedUSD b \<noteq> JNum None"
        "changeCurrency b = JStr ''LRD'' \<or> changeCurrency b = JStr ''USD''"
    by (auto simp: wellFormedPayment_def)
  then show ?thesis
  proof cases
    case lrd
    from suff lrd(1) have "is_number (amountReceivedLRD b)" by (simp add: spec_insufficient_def)
    from typed_amount[OF this lrd(2)] obtain x where x: "amountReceivedLRD b = Num x" by blast
    have "castCurrency (d_currency (paymentDoc c b)) = Some LRD"
      "castCurrency (d_changeCurrency (paymentDoc c b)) = Some LRD" "LRD \<noteq> BOTH"
      "d_amountReceivedLRD (paymentDoc c b) = Num x" "d_amountReceivedUSD (paymentDoc c b) = Num 0"
      using lrd(1) x by (simp_all add: paymentDoc_def)
    from Transaction_save_amounts[OF items this rest] show ?thesis .
  next
    case usd
    from suff usd(1) have "is_number (amountReceivedUSD b)" by (simp add: spec_insufficient_def)
    from typed_amount[OF this usd(2)] obtain y where y: "amountReceivedUSD b = Num y" by blast
    have "castCurrency (d_currency (paymentDoc c b)) = Some USD"
      "castCurrency (d_changeCurrency (paymentDoc c b)) = Some USD" "USD \<noteq> BOTH"
      "d_amountReceivedLRD (paymentDoc c b) = Num 0" "d_amountReceivedUSD (paymentDoc c b) = Num y"
      using usd(1) y by (simp_all add: paymentDoc_def)
    from Transaction_save_amounts[OF items this rest] show ?thesis .
  next
    case both
    from suff both(1) have "is_number (amountReceivedLRD b)" "is_number (amountReceivedUSD b)"
      by (simp_all add: spec_insufficient_def)
    from typed_amount[OF this(1) both(2)] typed_amount[OF this(2) both(3)]
    obtain x y where xy: "amountReceivedLRD b = Num x" "amountReceivedUSD b = Num y" by blast
    from both(4) obtain cc where cc: "castCurrency (changeCurrency b) = Some cc" "cc \<noteq> BOTH"
      by auto
    have "castCurrency (d_currency (paymentDoc c b)) = Some BOTH"
      "castCurrency (d_changeCurrency (paymentDoc c b)) = Some cc" "cc \<noteq> BOTH"
      "d_amountReceivedLRD (paymentDoc c b) = Num x" "d_amountReceivedUSD (paymentDoc c b) = Num y"
      using both(1) xy cc by (simp_all add: paymentDoc_def)
    from Transaction_save_amounts[OF items this rest] show ?thesis .
  qed
qed

lemma payCredit_again:
  assumes r: "snd (payCredit fl s2n now cid b dbs)
                 = dbs\<lparr>transactions := ts, credits := (credits dbs)(cid \<mapsto> c\<lparr>c_status := Paid, c_paidAt := pa,
                                       c_paymentTransaction := pt\<rparr>), next_id := n\<rparr>"
    and s': "store b' \<noteq> []"
  shows "fst (payCredit fl s2n now' cid b' (snd (payCredit fl s2n now cid b dbs)))
           = Inl PendingCreditNotFound"
proof -
  have "findPendingCredit (credits (snd (payCredit fl s2n now cid b dbs))) cid (store b') = None"
    unfolding r by (simp add: findPendingCredit_def)
  then show ?thesis using payCredit_not_found[OF s'] by blast
qed

lemma example_payment_sufficient:
  "\<not> spec_insufficient exact no_s2n (currency (example_payment (Num 2000)))
        (amountReceivedLRD (example_payment (Num 2000)))
        (amountReceivedUSD (example_payment (Num 2000)))
        (Num (c_totalLRD ada_credit)) (Num (c_totalUSD ada_credit))
        (EXCHANGE_RATE (currencyRate (example_payment (Num 2000))))"
  by (simp add: spec_insufficient_def example_payment_def empty_body_def ada_credit_def)

lemma example_payment_both_sufficient:
  "\<not> spec_insufficient exact no_s2n (currency (example_payment_both\<lparr>changeCurrency := v\<rparr>))
        (amountReceivedLRD (example_payment_both\<lparr>changeCurrency := v\<rparr>))
        (amountReceivedUSD (example_payment_both\<lparr>changeCurrency := v\<rparr>))
        (Num (c_totalLRD ada_credit)) (Num (c_totalUSD ada_credit))
        (EXCHANGE_RATE (currencyRate (example_payment_both\<lparr>changeCurrency := v\<rparr>)))"
  by (simp add: spec_insufficient_def example_payment_both_def empty_body_def ada_credit_def
      EXCHANGE_RATE_def js_or_def exact_def)

lemma example_payment_wellFormed:
  "wellFormedPayment no_s2n (example_payment (Num 2000))"
  "wellFormedPayment no_s2n (example_payment_both\<lparr>changeCurrency := JStr ''USD''\<rparr>)"
  by (simp_all add: wellFormedPayment_def example_payment_def example_payment_both_def
      empty_body_def)

lemma example_pending:
  "credits example_credit_db 7 = Some ada_credit" "c_status ada_credit = Pending"
  "c_store ada_credit = ''Main''" "\<forall>li \<in> set (c_productsSold ada_credit). productName li \<noteq> []"
  "store (example_payment a) = ''Main''" "store example_payment_both = ''Main''"
  by (simp_all add: example_credit_db_def ada_credit_def example_payment_def
      example_payment_both_def empty_body_def)

text \<open>
  C3, amended. For a request that names a store, \<open>payCredit\<close> answers that no pending
  credit was found exactly when the store has no credit of that id in the status
  pending, so also for a credit that is paid already. On a pending credit whose line
  items have their product names, a payment that is not insufficient and is well formed
  (in LRD, in USD, or in both with a \<open>changeCurrency\<close> of LRD or USD; a \<open>change\<close> that
  is a number or absent; a store name that is not blank) stores a new transaction of the
  type sale with the line items and the two totals of the credit, and the credit with
  the status paid, the time of payment and the id of that transaction; after that, every
  further \<open>payCredit\<close> on the credit answers that no pending credit was found.
\<close>

theorem payCredit_lifecycle:
  "(store b \<noteq> [] \<longrightarrow>
      (fst (payCredit fl s2n now cid b dbs) = Inl PendingCreditNotFound
         \<longleftrightarrow> \<not> (\<exists>c. credits dbs cid = Some c \<and> c_store c = store b \<and> c_status c = Pending)))
   \<and> (store b \<noteq> [] \<and> credits dbs cid = Some c \<and> c_store c = store b \<and> c_status c = Paid
        \<longrightarrow> fst (payCredit fl s2n now cid b dbs) = Inl PendingCreditNotFound)
   \<and> (credits dbs cid = Some c \<and> c_store c = store b \<and> c_status c = Pending
        \<and> (\<forall>li \<in> set (c_productsSold c). productName li \<noteq> [])
        \<and> \<not> spec_insufficient fl s2n (currency b) (amountReceivedLRD b) (amountReceivedUSD b)
              (Num (c_totalLRD c)) (Num (c_totalUSD c)) (EXCHANGE_RATE (currencyRate b))
        \<and> wellFormedPayment s2n b
        \<longrightarrow> (\<exists>t. payCredit fl s2n now cid b dbs
                    = (Inr (c\<lparr>c_status := Paid, c_paidAt := Some now,
                               c_paymentTransaction := Some (t_id t)\<rparr>, t),
                       dbs\<lparr>transactions := transactions dbs @ [t],
                           credits := (credits dbs)
                             (cid \<mapsto> c\<lparr>c_status := Paid, c_paidAt := Some now,
                                         c_paymentTransaction := Some (t_id t)\<rparr>),
                           next_id := Suc (next_id dbs)\<rparr>)
                \<and> t_id t = next_id dbs \<and> t_type t = Sale
                \<and> t_productsSold t = c_productsSold c
                \<and> t_totalLRD t = Some (c_totalLRD c) \<and> t_totalUSD t = Some (c_totalUSD c))
            \<and> (\<forall>now' b'. store b' \<noteq> [] \<longrightarrow>
                  fst (payCredit fl s2n now' cid b' (snd (payCredit fl s2n now cid b dbs)))
                    = Inl PendingCreditNotFound))"
proof (intro conjI impI)
  assume st: "store b \<noteq> []"
  show "fst (payCredit fl s2n now cid b dbs) = Inl PendingCreditNotFound
            \<longleftrightarrow> \<not> (\<exists>c. credits dbs cid = Some c \<and> c_store c = store b \<and> c_status c = Pending)"
    unfolding payCredit_not_found[OF st] findPendingCredit_None by (rule refl)
next
  assume a: "store b \<noteq> [] \<and> credits dbs cid = Some c \<and> c_store c = store b \<and> c_status c = Paid"
  then have "findPendingCredit (credits dbs) cid (store b) = None"
    by (simp add: findPendingCredit_def)
  with a show "fst (payCredit fl s2n now cid b dbs) = Inl PendingCreditNotFound"
    using payCredit_not_found by blast
next
  assume a: "credits dbs cid = Some c \<and> c_store c = store b \<and> c_status c = Pending
        \<and> (\<forall>li \<in> set (c_productsSold c). productName li \<noteq> [])
        \<and> \<not> spec_insufficient fl s2n (currency b) (amountReceivedLRD b) (amountReceivedUSD b)
              (Num (c_totalLRD c)) (Num (c_totalUSD c)) (EXCHANGE_RATE (currencyRate b))
        \<and> wellFormedPayment s2n b"
  then have pend: "credits dbs cid = Some c \<and> c_store c = store b \<and> c_status c = Pending"
    and names: "\<forall>li \<in> set (c_productsSold c). productName li \<noteq> []"
    and suff: "\<not> spec_insufficient fl s2n (currency b) (amountReceivedLRD b) (amountReceivedUSD b)
              (Num (c_totalLRD c)) (Num (c_totalUSD c)) (EXCHANGE_RATE (currencyRate b))"
    and wf: "wellFormedPayment s2n b" by simp_all
  from wf have st: "store b \<noteq> []"
    by (auto simp: wellFormedPayment_def dest: trim_nonempty)
  from Transaction_save_payment[OF names wf suff] obtain t where
    sv: "Transaction_save s2n (next_id dbs) now (paymentDoc c b) = Some t" by blast
  note p = payCredit_pending[OF st pend suff sv]
  from Transaction_save_paymentDoc[OF sv] have "t_id t = next_id dbs" by simp
  with p show "\<exists>t. payCredit fl s2n now cid b dbs
                    = (Inr (c\<lparr>c_status := Paid, c_paidAt := Some now,
                               c_paymentTransaction := Some (t_id t)\<rparr>, t),
                       dbs\<lparr>transactions := transactions dbs @ [t],
                           credits := (credits dbs)
                             (cid \<mapsto> c\<lparr>c_status := Paid, c_paidAt := Some now,
                                         c_paymentTransaction := Some (t_id t)\<rparr>),
                           next_id := Suc (next_id dbs)\<rparr>)
                \<and> t_id t = next_id dbs \<and> t_type t = Sale
                \<and> t_productsSold t = c_productsSold c
                \<and> t_totalLRD t = Some (c_totalLRD c) \<and> t_totalUSD t = Some (c_totalUSD c)"
    by blast
  from p have r: "snd (payCredit fl s2n now cid b dbs)
                 = dbs\<lparr>transactions := transactions dbs @ [t],
                       credits := (credits dbs)(cid \<mapsto> c\<lparr>c_status := Paid, c_paidAt := Some now,
                                       c_paymentTransaction := Some (t_id t)\<rparr>),
                       next_id := Suc (next_id dbs)\<rparr>" by simp
  show "\<forall>now' b'. store b' \<noteq> [] \<longrightarrow>
                  fst (payCredit fl s2n now' cid b' (snd (payCredit fl s2n now cid b dbs)))
                    = Inl PendingCreditNotFound"
    using payCredit_again[OF r] by blast
qed

text \<open>
  The pending credit of the example, paid with 2000 LRD for its 1970, and paid again; and
  the same credit paid in both currencies, the change to be given in USD.
\<close>

theorem payCredit_lifecycle_witness:
  "\<not> isl (fst (payCredit exact no_s2n 5 7 (example_payment (Num 2000)) example_credit_db))
   \<and> map_option c_status (credits example_credit_db 7) = Some Pending
   \<and> map_option c_status
       (credits (snd (payCredit exact no_s2n 5 7 (example_payment (Num 2000)) example_credit_db)) 7)
     = Some Paid
   \<and> fst (payCredit exact no_s2n 6 7 (example_payment (Num 2000))
            (snd (payCredit exact no_s2n 5 7 (example_payment (Num 2000)) example_credit_db)))
     = Inl PendingCreditNotFound
   \<and> \<not> isl (fst (payCredit exact no_s2n 5 7 (example_payment_both\<lparr>changeCurrency := JStr ''USD''\<rparr>)
                   example_credit_db))"
proof -
  let ?b = "example_payment (Num 2000)"
  let ?b2 = "example_payment_both\<lparr>changeCurrency := JStr ''USD''\<rparr>"
  have st: "store ?b \<noteq> []" by (simp add: example_pending)
  have s1: "c_store ada_credit = store ?b" and s2: "c_store ada_credit = store ?b2"
    by (simp_all add: example_pending)
  have p1: "credits example_credit_db 7 = Some ada_credit \<and> c_store ada_credit = store ?b
        \<and> c_status ada_credit = Pending
        \<and> (\<forall>li \<in> set (c_productsSold ada_credit). productName li \<noteq> [])
        \<and> \<not> spec_insufficient exact no_s2n (currency ?b) (amountReceivedLRD ?b) (amountReceivedUSD ?b)
              (Num (c_totalLRD ada_credit)) (Num (c_totalUSD ada_credit))
              (EXCHANGE_RATE (currencyRate ?b))
        \<and> wellFormedPayment no_s2n ?b"
    by (intro conjI example_pending(1,2,4) s1 example_payment_sufficient
        example_payment_wellFormed(1))
  have p2: "credits example_credit_db 7 = Some ada_credit \<and> c_store ada_credit = store ?b2
        \<and> c_status ada_credit = Pending
        \<and> (\<forall>li \<in> set (c_productsSold ada_credit). productName li \<noteq> [])
        \<and> \<not> spec_insufficient exact no_s2n (currency ?b2) (amountReceivedLRD ?b2) (amountReceivedUSD ?b2)
              (Num (c_totalLRD ada_credit)) (Num (c_totalUSD ada_credit))
              (EXCHANGE_RATE (currencyRate ?b2))
        \<and> wellFormedPayment no_s2n ?b2"
    by (intro conjI example_pending(1,2,4) s2 example_payment_both_sufficient
        example_payment_wellFormed(2))
  note l = payCredit_lifecycle[of ?b exact no_s2n 5 7 example_credit_db ada_credit,
      THEN conjunct2, THEN conjunct2, THEN mp, OF p1]
  from l[THEN conjunct1] obtain t where
    r: "payCredit exact no_s2n 5 7 ?b example_credit_db
                  = (Inr (ada_credit\<lparr>c_status := Paid, c_paidAt := Some 5,
                             c_paymentTransaction := Some (t_id t)\<rparr>, t),
                     example_credit_db\<lparr>transactions := transactions example_credit_db @ [t],
                         credits := (credits example_credit_db)
                           (7 \<mapsto> ada_credit\<lparr>c_status := Paid, c_paidAt := Some 5,
                                       c_paymentTransaction := Some (t_id t)\<rparr>),
                         next_id := Suc (next_id example_credit_db)\<rparr>)"
    by (elim exE conjE)
  from l[THEN conjunct2, THEN spec, THEN spec, THEN mp, OF st]
  have again: "fst (payCredit exact no_s2n 6 7 ?b (snd (payCredit exact no_s2n 5 7 ?b example_credit_db)))
                      = Inl PendingCreditNotFound" .
  note l2 = payCredit_lifecycle[of ?b2 exact no_s2n 5 7 example_credit_db ada_credit,
      THEN conjunct2, THEN conjunct2, THEN mp, OF p2]
  from l2[THEN conjunct1] obtain t2 where
    r2: "payCredit exact no_s2n 5 7 ?b2 example_credit_db
                  = (Inr (ada_credit\<lparr>c_status := Paid, c_paidAt := Some 5,
                             c_paymentTransaction := Some (t_id t2)\<rparr>, t2),
                     example_credit_db\<lparr>transactions := transactions example_credit_db @ [t2],
                         credits := (credits example_credit_db)
                           (7 \<mapsto> ada_credit\<lparr>c_status := Paid, c_paidAt := Some 5,
                                       c_paymentTransaction := Some (t_id t2)\<rparr>),
                         next_id := Suc (next_id example_credit_db)\<rparr>)"
    by (elim exE conjE)
  have a1: "\<not> isl (fst (payCredit exact no_s2n 5 7 ?b example_credit_db))"
    unfolding r by simp
  have a2: "map_option c_status (credits example_credit_db 7) = Some Pending"
    by (simp add: example_pending)
  have a3: "map_option c_status
       (credits (snd (payCredit exact no_s2n 5 7 ?b example_credit_db)) 7) = Some Paid"
    unfolding r by simp
  have a5: "\<not> isl (fst (payCredit exact no_s2n 5 7 ?b2 example_credit_db))"
    unfolding r2 by simp
  from a1 a2 a3 again a5 show ?thesis by (intro conjI)
qed

text \<open>
  C3 as the spec states it fails for three requests on the pending credit of the example.
  A payment of 2000 LRD and 0 USD in both currencies, which is sufficient for the 1970
  LRD of the credit, names no \<open>changeCurrency\<close>: the schema refuses the transaction,
  and the credit stays pending. The same holds for a sufficient payment in LRD whose
  \<open>change\<close> is a word. And a request that names no store is answered with a 400, not
  with the 404 of a credit that was not found.
\<close>

theorem payCredit_lifecycle_counterexample:
  "credits example_credit_db 7 = Some ada_credit \<and> c_status ada_credit = Pending
   \<and> c_store ada_credit = store example_payment_both
   \<and> \<not> spec_insufficient exact no_s2n (currency example_payment_both)
        (amountReceivedLRD example_payment_both) (amountReceivedUSD example_payment_both)
        (Num (c_totalLRD ada_credit)) (Num (c_totalUSD ada_credit))
        (EXCHANGE_RATE (currencyRate example_payment_both))
   \<and> payCredit exact no_s2n 5 7 example_payment_both example_credit_db
     = (Inl Caught, example_credit_db)
   \<and> payCredit exact no_s2n 5 7 ((example_payment (Num 2000))\<lparr>change := JStr ''soon''\<rparr>)
       example_credit_db
     = (Inl Caught, example_credit_db)
   \<and> \<not> (\<exists>c. credits example_credit_db 7 = Some c \<and> c_store c = [] \<and> c_status c = Pending)
   \<and> payCredit exact no_s2n 5 7 ((example_payment (Num 2000))\<lparr>store := []\<rparr>) example_credit_db
     = (Inl StoreRequired, example_credit_db)"
  by (simp add: payCredit_def findPendingCredit_def spec_insufficient_def example_credit_db_def
      example_db_def ada_credit_def example_payment_def example_payment_both_def empty_body_def
      exact_def no_s2n_def handler_defs rawOfItem_def)

subsection \<open>The totals of a credit\<close>












subsection \<open>Returns\<close>

lemma returnItems_append:
  "returnItems fl s2n st (xs @ ys) ps acc tL tU =
     (case returnItems fl s2n st xs ps acc tL tU of
        (Inl e, ps1) \<Rightarrow> (Inl e, ps1)
      | (Inr (acc1, tL1, tU1), ps1) \<Rightarrow> returnItems fl s2n st ys ps1 acc1 tL1 tU1)"
  by (induction xs arbitrary: ps acc tL tU) (auto split: option.splits)

lemma castNumber_ToNumber: "castNumber s2n v = Some (Num d) \<Longrightarrow> ToNumber s2n v = Some d"
  by (induction s2n v rule: castNumber.induct) (auto split: if_splits option.splits)

lemma incPieces_frame:
  assumes "incPieces s2n ps j v = Some ps'"
  shows "(ps' i = None \<longleftrightarrow> ps i = None)
       \<and> map_option item (ps' i) = map_option item (ps i)
       \<and> map_option p_store (ps' i) = map_option p_store (ps i)
       \<and> map_option priceUSD (ps' i) = map_option priceUSD (ps i)
       \<and> map_option priceLRD (ps' i) = map_option priceLRD (ps i)"
  using assms
  by (auto simp: incPieces_def split: option.splits jsval.splits if_splits)

lemma findOne_frame:
  assumes "map_option p_store (ps' i) = map_option p_store (ps i)"
  shows "findOne ps' i st = None \<longleftrightarrow> findOne ps i st = None"
  using assms by (cases "ps' i"; cases "ps i") (auto simp: findOne_def)

lemma returnItems_step:
  assumes "returnItems fl s2n st (it # its) ps acc tL tU = (Inr r, ps')"
  shows "\<exists>p q ps1 acc1. findOne ps (ri_product it) st = Some p
     \<and> ToNumber s2n (ri_quantity it) = Some q \<and> 0 < q
     \<and> incPieces s2n ps (ri_product it) (ri_quantity it) = Some ps1
     \<and> returnItems fl s2n st its ps1 acc1
          (num_add fl tL (num_mul fl (priceLRD p) (Some q))) (num_add fl tU (num_mul fl (priceUSD p) (Some q)))
         = (Inr r, ps')
     \<and> (\<forall>i. onHand ps1 i = (if i = ri_product it then Some ((case pieces p of None \<Rightarrow> 0 | Some n \<Rightarrow> n) + q)
                               else onHand ps i))"
proof -
  from assms obtain p where p: "findOne ps (ri_product it) st = Some p"
    by (auto split: option.splits)
  with assms have ok: "truthy (ri_quantity it)" "\<not> num_le (ToNumber s2n (ri_quantity it)) (Some 0)"
    by (auto split: if_splits)
  with assms p obtain ps1 where ps1: "incPieces s2n ps (ri_product it) (ri_quantity it) = Some ps1"
    by (auto split: option.splits)
  from incPieces_onHand[OF ps1] obtain d where d: "castNumber s2n (ri_quantity it) = Some (Num d)"
    and oh: "\<forall>i. onHand ps1 i =
              (if i = ri_product it \<and> ps (ri_product it) \<noteq> None then Some ((case onHand ps (ri_product it) of None \<Rightarrow> 0 | Some n \<Rightarrow> n) + d)
               else onHand ps i)" by blast
  from castNumber_ToNumber[OF d] have q: "ToNumber s2n (ri_quantity it) = Some d" .
  with ok have pos: "0 < d" by simp
  from p have psp: "ps (ri_product it) = Some p"
    by (auto simp: findOne_def split: option.splits if_splits)
  from assms p ok ps1 q have rest: "returnItems fl s2n st its ps1
       (acc @ [\<lparr>r_product = ri_product it, r_quantity = ri_quantity it,
                                     r_productName = item p, r_priceUSD = priceUSD p,
                                     r_priceLRD = priceLRD p\<rparr>])
       (num_add fl tL (num_mul fl (priceLRD p) (Some d))) (num_add fl tU (num_mul fl (priceUSD p) (Some d)))
       = (Inr r, ps')" by simp
  from oh psp have "\<forall>i. onHand ps1 i = (if i = ri_product it then Some ((case pieces p of None \<Rightarrow> 0 | Some n \<Rightarrow> n) + d)
                               else onHand ps i)" by (simp add: onHand_def)
  with p q pos ps1 rest show ?thesis by blast
qed

lemma returnItems_onHand:
  assumes "returnItems fl s2n st its ps acc tL tU = (Inr r, ps')" and "onHand ps i = Some n"
  shows "onHand ps' i = Some (n + requested s2n i its)"
  using assms
proof (induction its arbitrary: ps acc tL tU n)
  case Nil
  then show ?case by (simp add: requested_def)
next
  case (Cons it its)
  from returnItems_step[OF Cons.prems(1)] obtain p q ps1 acc1 where
    p: "findOne ps (ri_product it) st = Some p" and q: "ToNumber s2n (ri_quantity it) = Some q"
    and rest: "returnItems fl s2n st its ps1 acc1
          (num_add fl tL (num_mul fl (priceLRD p) (Some q))) (num_add fl tU (num_mul fl (priceUSD p) (Some q)))
         = (Inr r, ps')"
    and oh: "\<forall>i. onHand ps1 i = (if i = ri_product it then Some ((case pieces p of None \<Rightarrow> 0 | Some n \<Rightarrow> n) + q)
                               else onHand ps i)" by blast
  from p have pp: "onHand ps (ri_product it) = pieces p"
    by (auto simp: findOne_def onHand_def split: option.splits if_splits)
  show ?case
  proof (cases "i = ri_product it")
    case True
    with oh pp Cons.prems(2) have "onHand ps1 i = Some (n + q)" by simp
    from Cons.IH[OF rest this] True q show ?thesis by (simp add: requested_Cons)
  next
    case False
    with oh Cons.prems(2) have "onHand ps1 i = Some n" by simp
    from Cons.IH[OF rest this] False show ?thesis by (simp add: requested_Cons)
  qed
qed

lemma lineValue_cong:
  assumes "\<forall>i. map_option price (ps' i) = map_option price (ps i)"
  shows "lineValue price s2n ps' = lineValue price s2n ps"
proof
  fix it :: req_item
  from assms have "map_option price (ps' (ri_product it)) = map_option price (ps (ri_product it))"
    by blast
  then show "lineValue price s2n ps' it = lineValue price s2n ps it"
    by (cases "ps' (ri_product it)"; cases "ps (ri_product it)") (auto simp: lineValue_def)
qed

lemma returnItems_totals:
  assumes "returnItems fl s2n st its ps acc tL tU = (Inr (acc', Some l', Some u'), ps')"
  shows "\<exists>l u. tL = Some l \<and> tU = Some u
       \<and> l' = foldl (\<lambda>total it. fl (total + fl (lineValue priceLRD s2n ps it))) l its
       \<and> u' = foldl (\<lambda>total it. fl (total + fl (lineValue priceUSD s2n ps it))) u its"
  using assms
proof (induction its arbitrary: ps acc tL tU)
  case Nil
  then show ?case by simp
next
  case (Cons it its)
  from returnItems_step[OF Cons.prems] obtain p q ps1 acc1 where
    p: "findOne ps (ri_product it) st = Some p" and q: "ToNumber s2n (ri_quantity it) = Some q"
    and inc: "incPieces s2n ps (ri_product it) (ri_quantity it) = Some ps1"
    and rest: "returnItems fl s2n st its ps1 acc1
          (num_add fl tL (num_mul fl (priceLRD p) (Some q))) (num_add fl tU (num_mul fl (priceUSD p) (Some q)))
         = (Inr (acc', Some l', Some u'), ps')" by blast
  from Cons.IH[OF rest] obtain l1 u1 where
    l1: "num_add fl tL (num_mul fl (priceLRD p) (Some q)) = Some l1"
    and u1: "num_add fl tU (num_mul fl (priceUSD p) (Some q)) = Some u1"
    and l': "l' = foldl (\<lambda>total it. fl (total + fl (lineValue priceLRD s2n ps1 it))) l1 its"
    and u': "u' = foldl (\<lambda>total it. fl (total + fl (lineValue priceUSD s2n ps1 it))) u1 its"
    by blast
  from l1 obtain l x where tl: "tL = Some l" and x: "priceLRD p = Some x"
    and l1': "l1 = fl (l + fl (x * q))"
    by (cases tL; cases "priceLRD p") auto
  from u1 obtain u y where tu: "tU = Some u" and y: "priceUSD p = Some y"
    and u1': "u1 = fl (u + fl (y * q))"
    by (cases tU; cases "priceUSD p") auto
  from p have psp: "ps (ri_product it) = Some p"
    by (auto simp: findOne_def split: option.splits if_splits)
  from incPieces_frame[OF inc] have
    c: "lineValue priceLRD s2n ps1 = lineValue priceLRD s2n ps"
    "lineValue priceUSD s2n ps1 = lineValue priceUSD s2n ps"
    by (auto intro!: lineValue_cong)
  have v: "lineValue priceLRD s2n ps it = x * q" "lineValue priceUSD s2n ps it = y * q"
    using psp x y q by (simp_all add: lineValue_def)
  from l' u' show ?case
    unfolding c l1' u1' tl tu by (simp add: v)
qed

lemma returnItems_frame:
  assumes "returnItems fl s2n st its ps acc tL tU = (Inr r, ps')"
  shows "map_option item (ps' i) = map_option item (ps i)
       \<and> map_option p_store (ps' i) = map_option p_store (ps i)"
  using assms
proof (induction its arbitrary: ps acc tL tU)
  case Nil
  then show ?case by simp
next
  case (Cons it its)
  from returnItems_step[OF Cons.prems] obtain p :: product and q ps1 acc1 where
    inc: "incPieces s2n ps (ri_product it) (ri_quantity it) = Some ps1"
    and rest: "returnItems fl s2n st its ps1 acc1
          (num_add fl tL (num_mul fl (priceLRD p) (Some q))) (num_add fl tU (num_mul fl (priceUSD p) (Some q)))
         = (Inr r, ps')" by blast
  from Cons.IH[OF rest] incPieces_frame[OF inc, of i] show ?case by simp
qed

lemma returnItems_fails_at:
  assumes "returnItems fl s2n st pre ps0 acc tL tU = (Inr x, ps)"
  shows "findOne ps (ri_product it) st = None \<Longrightarrow>
           returnItems fl s2n st (pre @ it # rest) ps0 acc tL tU
             = (Inl (ProductNotFound (ri_product it) st), ps)"
    and "findOne ps (ri_product it) st = Some p \<Longrightarrow>
         \<not> truthy (ri_quantity it) \<or> num_le (ToNumber s2n (ri_quantity it)) (Some 0) \<Longrightarrow>
           returnItems fl s2n st (pre @ it # rest) ps0 acc tL tU
             = (Inl (InvalidQuantity (item p)), ps)"
  using assms by (auto simp add: returnItems_append split: prod.splits)

lemma findOne_item_frame:
  assumes "map_option item (ps' i) = map_option item (ps i)"
    and "map_option p_store (ps' i) = map_option p_store (ps i)"
    and "findOne ps i st = Some p0"
  shows "\<exists>p. findOne ps' i st = Some p \<and> item p = item p0"
  using assms by (cases "ps' i"; cases "ps i") (auto simp: findOne_def split: if_splits)

lemma trim_default_reason: "trim ''No reason provided'' = ''No reason provided''"
  by (simp add: trim_def js_ws_def)

lemma Transaction_save_returnDoc:
  assumes "Transaction_save s2n oid now (returnDoc b en tL tU) = Some t"
  shows "t_type t = Return \<and> t_totalLRD t = tL \<and> t_totalUSD t = tU \<and> tL \<noteq> None \<and> tU \<noteq> None
       \<and> (returnReason b = [] \<longrightarrow> t_returnReason t = Some ''No reason provided'')"
  using assms
  by (cases tL; cases tU)
     (auto simp: Transaction_save_def returnDoc_def numberPath_def trim_default_reason
           split: Option.bind_splits if_splits)

lemma createReturn_loop_error:
  assumes "store b \<noteq> []" and "productsReturned b = Some (it # its)"
    and "returnItems fl s2n (store b) (it # its) (products dbs) [] (Some 0) (Some 0) = (Inl e, ps)"
  shows "createReturnTransaction fl s2n now b dbs = (Inl e, dbs\<lparr>products := ps\<rparr>)"
  using assms by (simp add: createReturnTransaction_def del: returnItems.simps)

lemma createReturn_saved:
  assumes "store b \<noteq> []" and "productsReturned b = Some its" and "its \<noteq> []"
    and "returnItems fl s2n (store b) its (products dbs) [] (Some 0) (Some 0) = (Inr (en, tL, tU), ps)"
    and "Transaction_save s2n (next_id dbs) now (returnDoc b en tL tU) = Some t"
  shows "createReturnTransaction fl s2n now b dbs
     = (Inr t, dbs\<lparr>products := ps, transactions := transactions dbs @ [t],
                   next_id := Suc (next_id dbs)\<rparr>)"
  using assms by (cases its) (simp_all add: createReturnTransaction_def del: returnItems.simps)

text \<open>
  Line items that are all returnable go through the loop, and the schema takes the
  transaction that the handler builds of them.
\<close>

lemma truthy_castNumber:
  assumes "truthy v" and "ToNumber s2n v = Some r"
  shows "castNumber s2n v = Some (Num r)"
  using assms by (induction v rule: truthy.induct) (auto split: if_splits)

lemma castItems_snoc:
  "castItems s2n (xs @ [r]) \<noteq> None \<longleftrightarrow> castItems s2n xs \<noteq> None \<and> castItem s2n r \<noteq> None"
  by (induction xs) (auto split: Option.bind_splits)

lemma returnable_frame:
  assumes "incPieces s2n' ps j v = Some ps'" and "returnable s2n ps st it"
  shows "returnable s2n ps' st it"
proof -
  from incPieces_frame[OF assms(1), of "ri_product it"] assms(2) show ?thesis
    by (cases "ps' (ri_product it)"; cases "ps (ri_product it)")
       (auto simp: returnable_def findOne_def split: if_splits)
qed

lemma returnable_step:
  assumes "returnable s2n ps st it"
  shows "\<exists>p x y r ps1. findOne ps (ri_product it) st = Some p \<and> item p \<noteq> []
       \<and> priceLRD p = Some x \<and> priceUSD p = Some y
       \<and> truthy (ri_quantity it) \<and> ToNumber s2n (ri_quantity it) = Some r \<and> 0 < r
       \<and> incPieces s2n ps (ri_product it) (ri_quantity it) = Some ps1"
proof -
  from assms obtain p x y r where p: "findOne ps (ri_product it) st = Some p"
    and props: "item p \<noteq> []" "priceLRD p = Some x" "priceUSD p = Some y"
      "truthy (ri_quantity it)" "ToNumber s2n (ri_quantity it) = Some r" "0 < r"
    by (auto simp: returnable_def split: option.splits)
  from truthy_castNumber[OF props(4,5)]
  have "\<exists>ps1. incPieces s2n ps (ri_product it) (ri_quantity it) = Some ps1"
    by (simp add: incPieces_def)
  with p props show ?thesis by blast
qed

lemma castItem_enhanced:
  assumes "nm \<noteq> []" and "truthy v" and "ToNumber s2n v = Some r"
  shows "castItem s2n \<lparr>r_product = i, r_quantity = v, r_productName = nm, r_priceUSD = Some y,
                        r_priceLRD = Some x\<rparr> \<noteq> None"
  using assms(1) truthy_castNumber[OF assms(2,3)] by (simp add: castItem_def numberPath_def)

lemma returnItems_returnable:
  assumes "\<forall>it \<in> set its. returnable s2n ps st it" and "castItems s2n acc \<noteq> None"
  shows "\<exists>en l u ps'. returnItems fl s2n st its ps acc (Some l0) (Some u0)
                         = (Inr (en, Some l, Some u), ps')
                     \<and> castItems s2n en \<noteq> None"
  using assms
proof (induction its arbitrary: ps acc l0 u0)
  case Nil
  then show ?case by simp
next
  case (Cons it its)
  from Cons.prems(1) have "returnable s2n ps st it" by simp
  from returnable_step[OF this] obtain p x y r ps1 where
    p: "findOne ps (ri_product it) st = Some p" and nm: "item p \<noteq> []"
    and x: "priceLRD p = Some x" and y: "priceUSD p = Some y"
    and tr: "truthy (ri_quantity it)" and r: "ToNumber s2n (ri_quantity it) = Some r" and pos: "0 < r"
    and inc: "incPieces s2n ps (ri_product it) (ri_quantity it) = Some ps1"
    by blast
  from Cons.prems(1) returnable_frame[OF inc]
  have rest: "\<forall>it \<in> set its. returnable s2n ps1 st it" by simp
  from castItem_enhanced[OF nm tr r] Cons.prems(2)
  have acc: "castItems s2n (acc @ [\<lparr>r_product = ri_product it, r_quantity = ri_quantity it,
                                     r_productName = item p, r_priceUSD = Some y,
                                     r_priceLRD = Some x\<rparr>]) \<noteq> None"
    unfolding castItems_snoc by simp
  from Cons.IH[OF rest acc, of "fl (l0 + fl (x * r))" "fl (u0 + fl (y * r))"]
  show ?case using p tr r pos inc x y by simp
qed

lemma Transaction_save_return:
  assumes "castItems s2n en \<noteq> None" and "trim (store b) \<noteq> []"
    and "currency b = JUndefined \<or> currency b = JStr ''LRD'' \<or> currency b = JStr ''USD''"
  shows "Transaction_save s2n oid now (returnDoc b en (Some l) (Some u)) \<noteq> None"
  using assms by (auto simp: Transaction_save_def returnDoc_def numberPath_def)

lemma createReturn_returnable:
  assumes pr: "productsReturned b = Some its" and ne: "its \<noteq> []" and st: "trim (store b) \<noteq> []"
    and cur: "currency b = JUndefined \<or> currency b = JStr ''LRD'' \<or> currency b = JStr ''USD''"
    and ok: "\<forall>it \<in> set its. returnable s2n (products dbs) (store b) it"
  shows "\<exists>t ps'. createReturnTransaction fl s2n now b dbs
                  = (Inr t, dbs\<lparr>products := ps', transactions := transactions dbs @ [t],
                                next_id := Suc (next_id dbs)\<rparr>)
            \<and> t_type t = Return
            \<and> t_totalLRD t = Some (catalogValue fl priceLRD s2n (products dbs) its)
            \<and> t_totalUSD t = Some (catalogValue fl priceUSD s2n (products dbs) its)
            \<and> (returnReason b = [] \<longrightarrow> t_returnReason t = Some ''No reason provided'')
            \<and> (\<forall>i n. onHand (products dbs) i = Some n
                   \<longrightarrow> onHand ps' i = Some (n + requested s2n i its))"
proof -
  from st have st': "store b \<noteq> []" by (rule trim_nonempty)
  have "castItems s2n [] \<noteq> None" by simp
  from returnItems_returnable[OF ok this, of fl 0 0] obtain en l u ps' where
    loop: "returnItems fl s2n (store b) its (products dbs) [] (Some 0) (Some 0)
             = (Inr (en, Some l, Some u), ps')"
    and en: "castItems s2n en \<noteq> None" by blast
  from Transaction_save_return[OF en st cur] obtain t where
    sv: "Transaction_save s2n (next_id dbs) now (returnDoc b en (Some l) (Some u)) = Some t"
    by blast
  note r = createReturn_saved[OF st' pr ne loop sv]
  note d = Transaction_save_returnDoc[OF sv]
  from returnItems_totals[OF loop] have
    tot: "l = catalogValue fl priceLRD s2n (products dbs) its"
    "u = catalogValue fl priceUSD s2n (products dbs) its"
    by (simp_all add: catalogValue_def)
  have oh: "\<forall>i n. onHand (products dbs) i = Some n
                   \<longrightarrow> onHand ps' i = Some (n + requested s2n i its)"
    using returnItems_onHand[OF loop] by blast
  from r d tot oh show ?thesis by blast
qed

lemma example_return_loop:
  "returnItems exact no_s2n (store (example_return qs)) (example_items [(1, 2)]) (products example_db) []
     (Some 0) (Some 0)
   = (Inr ([\<lparr>r_product = 1, r_quantity = Num 2, r_productName = ''rice'', r_priceUSD = Some 5,
              r_priceLRD = Some 985\<rparr>], Some 1970, Some 10),
      (products example_db)(1 \<mapsto> rice\<lparr>pieces := Some 12\<rparr>))"
  by (simp add: example_return_def empty_body_def example_defs handler_defs)

lemma example_return_fields:
  "store (example_return qs) \<noteq> []"
  "productsReturned (example_return qs) = Some (example_items qs)"
  "returnReason (example_return qs) = []"
  "store (example_return qs) = ''Main''"
  "currency (example_return qs) = JStr ''LRD''"
  by (simp_all add: example_return_def empty_body_def)

lemma example_catalogValue:
  "catalogValue exact priceLRD no_s2n (products example_db) (example_items [(1, 2)]) = 1970"
  "catalogValue exact priceUSD no_s2n (products example_db) (example_items [(1, 2)]) = 10"
  "requested no_s2n 1 (example_items [(1, 2)]) = 2"
  by (simp_all add: catalogValue_def lineValue_def requested_def example_defs)

lemma example_returnable:
  "\<forall>it \<in> set (example_items [(1, 2)]).
      returnable no_s2n (products example_db) (store (example_return [(1, 2)])) it"
  by (simp add: returnable_def findOne_def example_return_def empty_body_def example_defs)

text \<open>
  C5, amended. Let the loop of \<open>createReturnTransaction\<close> have gone through the line
  items \<open>pre\<close>. If the next line item names a product that the store does not have, the
  answer is the 404 for that product; if its product is there and its quantity is a number
  \<open>q \<le> 0\<close>, the answer is the 400 for an invalid quantity. A return in no currency, in
  LRD or in USD, to a store whose name is not blank, of at least one line item, every
  line item naming a product of the store that has a name and both prices, with a
  quantity that is truthy and positive, is accepted: the transaction is stored with the
  type return, with \<open>totalLRD\<close> the sum over the line items of the product's \<open>priceLRD\<close>
  in the catalogue at the time of the request times the quantity, with \<open>totalUSD\<close> the
  same sum for \<open>priceUSD\<close>, and with the default reason when the request gives none;
  and every product whose quantity on hand was known has gained exactly the quantities
  returned of it.
\<close>

theorem createReturn_spec:
  "(store b \<noteq> [] \<and> productsReturned b = Some (pre @ it # rest)
      \<and> returnItems fl s2n (store b) pre (products dbs) [] (Some 0) (Some 0)
            = (Inr (en, tL, tU), ps)
      \<and> findOne (products dbs) (ri_product it) (store b) = None
      \<longrightarrow> createReturnTransaction fl s2n now b dbs
            = (Inl (ProductNotFound (ri_product it) (store b)), dbs\<lparr>products := ps\<rparr>))
   \<and> (store b \<noteq> [] \<and> productsReturned b = Some (pre @ it # rest)
      \<and> returnItems fl s2n (store b) pre (products dbs) [] (Some 0) (Some 0)
            = (Inr (en, tL, tU), ps)
      \<and> findOne (products dbs) (ri_product it) (store b) = Some p
      \<and> ri_quantity it = Num q \<and> q \<le> 0
      \<longrightarrow> createReturnTransaction fl s2n now b dbs
            = (Inl (InvalidQuantity (item p)), dbs\<lparr>products := ps\<rparr>))
   \<and> (productsReturned b = Some its \<and> its \<noteq> [] \<and> trim (store b) \<noteq> []
      \<and> (currency b = JUndefined \<or> currency b = JStr ''LRD'' \<or> currency b = JStr ''USD'')
      \<and> (\<forall>it \<in> set its. returnable s2n (products dbs) (store b) it)
      \<longrightarrow> (\<exists>t ps'. createReturnTransaction fl s2n now b dbs
                  = (Inr t, dbs\<lparr>products := ps', transactions := transactions dbs @ [t],
                                next_id := Suc (next_id dbs)\<rparr>)
            \<and> t_type t = Return
            \<and> t_totalLRD t = Some (catalogValue fl priceLRD s2n (products dbs) its)
            \<and> t_totalUSD t = Some (catalogValue fl priceUSD s2n (products dbs) its)
            \<and> (returnReason b = [] \<longrightarrow> t_returnReason t = Some ''No reason provided'')
            \<and> (\<forall>i n. onHand (products dbs) i = Some n
                   \<longrightarrow> onHand ps' i = Some (n + requested s2n i its))))"
proof (intro conjI impI)
  assume a: "store b \<noteq> [] \<and> productsReturned b = Some (pre @ it # rest)
      \<and> returnItems fl s2n (store b) pre (products dbs) [] (Some 0) (Some 0)
            = (Inr (en, tL, tU), ps)
      \<and> findOne (products dbs) (ri_product it) (store b) = None"
  then have st: "store b \<noteq> []"
    and pre: "returnItems fl s2n (store b) pre (products dbs) [] (Some 0) (Some 0)
            = (Inr (en, tL, tU), ps)" by simp_all
  from a returnItems_frame[OF pre, of "ri_product it"]
  have "findOne ps (ri_product it) (store b) = None"
    using findOne_frame by blast
  from returnItems_fails_at(1)[OF pre this]
  have l: "returnItems fl s2n (store b) (pre @ it # rest) (products dbs) [] (Some 0) (Some 0)
             = (Inl (ProductNotFound (ri_product it) (store b)), ps)" .
  obtain x xs where c: "pre @ it # rest = x # xs" by (cases "pre @ it # rest") auto
  from a c have "productsReturned b = Some (x # xs)" by simp
  from createReturn_loop_error[OF st this l[unfolded c]]
  show "createReturnTransaction fl s2n now b dbs
                  = (Inl (ProductNotFound (ri_product it) (store b)), dbs\<lparr>products := ps\<rparr>)" .
next
  assume a: "store b \<noteq> [] \<and> productsReturned b = Some (pre @ it # rest)
      \<and> returnItems fl s2n (store b) pre (products dbs) [] (Some 0) (Some 0)
            = (Inr (en, tL, tU), ps)
      \<and> findOne (products dbs) (ri_product it) (store b) = Some p
      \<and> ri_quantity it = Num q \<and> q \<le> 0"
  then have st: "store b \<noteq> []"
    and pre: "returnItems fl s2n (store b) pre (products dbs) [] (Some 0) (Some 0)
            = (Inr (en, tL, tU), ps)" by simp_all
  from a returnItems_frame[OF pre, of "ri_product it"] obtain p' where
    p': "findOne ps (ri_product it) (store b) = Some p'" and i: "item p' = item p"
    using findOne_item_frame by blast
  from a have bad: "\<not> truthy (ri_quantity it) \<or> num_le (ToNumber s2n (ri_quantity it)) (Some 0)"
    by simp
  from returnItems_fails_at(2)[OF pre p' bad] i
  have l: "returnItems fl s2n (store b) (pre @ it # rest) (products dbs) [] (Some 0) (Some 0)
             = (Inl (InvalidQuantity (item p)), ps)" by simp
  obtain x xs where c: "pre @ it # rest = x # xs" by (cases "pre @ it # rest") auto
  from a c have "productsReturned b = Some (x # xs)" by simp
  from createReturn_loop_error[OF st this l[unfolded c]]
  show "createReturnTransaction fl s2n now b dbs
                  = (Inl (InvalidQuantity (item p)), dbs\<lparr>products := ps\<rparr>)" .
next
  assume a: "productsReturned b = Some its \<and> its \<noteq> [] \<and> trim (store b) \<noteq> []
      \<and> (currency b = JUndefined \<or> currency b = JStr ''LRD'' \<or> currency b = JStr ''USD'')
      \<and> (\<forall>it \<in> set its. returnable s2n (products dbs) (store b) it)"
  then have pr: "productsReturned b = Some its" and ne: "its \<noteq> []" and st: "trim (store b) \<noteq> []"
    and cur: "currency b = JUndefined \<or> currency b = JStr ''LRD'' \<or> currency b = JStr ''USD''"
    and ok: "\<forall>it \<in> set its. returnable s2n (products dbs) (store b) it" by simp_all
  from createReturn_returnable[OF pr ne st cur ok]
  show "\<exists>t ps'. createReturnTransaction fl s2n now b dbs
                  = (Inr t, dbs\<lparr>products := ps', transactions := transactions dbs @ [t],
                                next_id := Suc (next_id dbs)\<rparr>)
            \<and> t_type t = Return
            \<and> t_totalLRD t = Some (catalogValue fl priceLRD s2n (products dbs) its)
            \<and> t_totalUSD t = Some (catalogValue fl priceUSD s2n (products dbs) its)
            \<and> (returnReason b = [] \<longrightarrow> t_returnReason t = Some ''No reason provided'')
            \<and> (\<forall>i n. onHand (products dbs) i = Some n
                   \<longrightarrow> onHand ps' i = Some (n + requested s2n i its))" .
qed

text \<open>
  A return of 2 of the first product of the example, at 985 LRD and 5 USD each; a return
  that names a product the store does not have; a return of a quantity 0.
\<close>

theorem createReturn_spec_witness:
  "\<not> isl (fst (createReturnTransaction exact no_s2n 0 (example_return [(1, 2)]) example_db))
   \<and> t_totalLRD (projr (fst (createReturnTransaction exact no_s2n 0 (example_return [(1, 2)]) example_db)))
       = Some 1970
   \<and> t_totalUSD (projr (fst (createReturnTransaction exact no_s2n 0 (example_return [(1, 2)]) example_db)))
       = Some 10
   \<and> t_returnReason
       (projr (fst (createReturnTransaction exact no_s2n 0 (example_return [(1, 2)]) example_db)))
       = Some ''No reason provided''
   \<and> onHand (products example_db) 1 = Some 10
   \<and> onHand (products (snd (createReturnTransaction exact no_s2n 0 (example_return [(1, 2)]) example_db))) 1
       = Some 12
   \<and> fst (createReturnTransaction exact no_s2n 0 (example_return [(1, 2), (9, 1)]) example_db)
       = Inl (ProductNotFound 9 ''Main'')
   \<and> fst (createReturnTransaction exact no_s2n 0 (example_return [(1, 2), (2, 0)]) example_db)
       = Inl (InvalidQuantity ''soap'')"
proof -
  let ?b = "example_return [(1, 2)]"
  have ne: "example_items [(1, 2)] \<noteq> []" by (simp add: example_items_def)
  have tr: "trim (store ?b) \<noteq> []" by (simp add: example_return_fields(4))
  have cur: "currency ?b = JUndefined \<or> currency ?b = JStr ''LRD'' \<or> currency ?b = JStr ''USD''"
    by (simp add: example_return_fields(5))
  have prem: "productsReturned ?b = Some (example_items [(1, 2)]) \<and> example_items [(1, 2)] \<noteq> []
      \<and> trim (store ?b) \<noteq> []
      \<and> (currency ?b = JUndefined \<or> currency ?b = JStr ''LRD'' \<or> currency ?b = JStr ''USD'')
      \<and> (\<forall>it \<in> set (example_items [(1, 2)]). returnable no_s2n (products example_db) (store ?b) it)"
    by (intro conjI example_return_fields(2) ne tr cur example_returnable)
  note ok = createReturn_spec[where b = ?b and fl = exact and ?s2n = no_s2n and dbs = example_db
      and now = 0 and its = "example_items [(1, 2)]",
      THEN conjunct2, THEN conjunct2, THEN mp, OF prem]
  from ok obtain t ps' where
    r: "createReturnTransaction exact no_s2n 0 ?b example_db
         = (Inr t, example_db\<lparr>products := ps', transactions := transactions example_db @ [t],
                                next_id := Suc (next_id example_db)\<rparr>)"
    and tl: "t_totalLRD t = Some (catalogValue exact priceLRD no_s2n (products example_db) (example_items [(1, 2)]))"
    and tu: "t_totalUSD t = Some (catalogValue exact priceUSD no_s2n (products example_db) (example_items [(1, 2)]))"
    and rr: "returnReason ?b = [] \<longrightarrow> t_returnReason t = Some ''No reason provided''"
    and oh: "\<forall>i n. onHand (products example_db) i = Some n
                   \<longrightarrow> onHand ps' i = Some (n + requested no_s2n i (example_items [(1, 2)]))"
    by (elim exE conjE)
  from oh example_onHand have oh1: "onHand ps' 1 = Some (10 + requested no_s2n 1 (example_items [(1, 2)]))"
    by blast
  from rr example_return_fields(3) have rr1: "t_returnReason t = Some ''No reason provided''"
    by blast
  have i9: "example_items [(1, 2), (9, 1)] = example_items [(1, 2)] @ \<lparr>ri_product = 9, ri_quantity = Num 1\<rparr> # []"
    and i2: "example_items [(1, 2), (2, 0)] = example_items [(1, 2)] @ \<lparr>ri_product = 2, ri_quantity = Num 0\<rparr> # []"
    by (simp_all add: example_items_def)
  have f9: "findOne (products example_db) (ri_product \<lparr>ri_product = 9, ri_quantity = Num 1\<rparr>)
              (store (example_return [(1, 2), (9, 1)])) = None"
    by (simp add: example_return_fields(4) findOne_def example_db_def)
  have f2: "findOne (products example_db) (ri_product \<lparr>ri_product = 2, ri_quantity = Num 0\<rparr>)
              (store (example_return [(1, 2), (2, 0)])) = Some soap"
    by (simp add: example_return_fields(4) findOne_def example_db_def soap_def)
  have p9: "store (example_return [(1, 2), (9, 1)]) \<noteq> []
      \<and> productsReturned (example_return [(1, 2), (9, 1)])
          = Some (example_items [(1, 2)] @ \<lparr>ri_product = 9, ri_quantity = Num 1\<rparr> # [])
      \<and> returnItems exact no_s2n (store (example_return [(1, 2), (9, 1)])) (example_items [(1, 2)])
            (products example_db) [] (Some 0) (Some 0)
          = (Inr ([\<lparr>r_product = 1, r_quantity = Num 2, r_productName = ''rice'', r_priceUSD = Some 5,
                     r_priceLRD = Some 985\<rparr>], Some 1970, Some 10),
             (products example_db)(1 \<mapsto> rice\<lparr>pieces := Some 12\<rparr>))
      \<and> findOne (products example_db) (ri_product \<lparr>ri_product = 9, ri_quantity = Num 1\<rparr>)
              (store (example_return [(1, 2), (9, 1)])) = None"
    using example_return_fields(2)[of "[(1, 2), (9, 1)]"]
    by (intro conjI example_return_fields(1) example_return_loop f9) (simp only: i9)
  from createReturn_spec[THEN conjunct1, THEN mp, OF p9, of 0]
  have e9: "fst (createReturnTransaction exact no_s2n 0 (example_return [(1, 2), (9, 1)]) example_db)
       = Inl (ProductNotFound 9 ''Main'')"
    by (simp add: example_return_fields(4))
  have p2: "store (example_return [(1, 2), (2, 0)]) \<noteq> []
      \<and> productsReturned (example_return [(1, 2), (2, 0)])
          = Some (example_items [(1, 2)] @ \<lparr>ri_product = 2, ri_quantity = Num 0\<rparr> # [])
      \<and> returnItems exact no_s2n (store (example_return [(1, 2), (2, 0)])) (example_items [(1, 2)])
            (products example_db) [] (Some 0) (Some 0)
          = (Inr ([\<lparr>r_product = 1, r_quantity = Num 2, r_productName = ''rice'', r_priceUSD = Some 5,
                     r_priceLRD = Some 985\<rparr>], Some 1970, Some 10),
             (products example_db)(1 \<mapsto> rice\<lparr>pieces := Some 12\<rparr>))
      \<and> findOne (products example_db) (ri_product \<lparr>ri_product = 2, ri_quantity = Num 0\<rparr>)
              (store (example_return [(1, 2), (2, 0)])) = Some soap
      \<and> ri_quantity \<lparr>ri_product = 2, ri_quantity = Num 0\<rparr> = Num 0 \<and> (0::real) \<le> 0"
    using example_return_fields(2)[of "[(1, 2), (2, 0)]"]
    by (intro conjI example_return_fields(1) example_return_loop f2) (simp_all only: i2, simp_all)
  from createReturn_spec[THEN conjunct2, THEN conjunct1, THEN mp, OF p2, of 0]
  have e2: "fst (createReturnTransaction exact no_s2n 0 (example_return [(1, 2), (2, 0)]) example_db)
       = Inl (InvalidQuantity ''soap'')"
    by (simp add: soap_def)
  note v = tl[unfolded example_catalogValue] tu[unfolded example_catalogValue]
    oh1[unfolded example_catalogValue]
  from v rr1 e9 e2 example_onHand show ?thesis
    unfolding r by simp
qed

lemma yam_return:
  "createReturnTransaction exact no_s2n 0 (example_return [(5, 2)]) bulk_db
     = (Inl Caught, bulk_db\<lparr>products := (products bulk_db)(5 \<mapsto> yam\<lparr>pieces := Some 6\<rparr>)\<rparr>)"
  by (simp add: createReturnTransaction_def example_return_def bulk_db_def bulk_def yam_def
      example_defs handler_defs)

text \<open>
  C5 as the spec states it fails for a return in both currencies of 2 of the first
  product of the example: the product is there and the quantity is positive, the stock
  goes from 10 to 12, and the schema refuses the transaction, so that none is stored.
  It fails in the same way for a return of a product that has no price in LRD. And a
  return of no line item at all, in which no product is absent and no quantity is below
  zero, is answered with a 400.
\<close>

theorem createReturn_spec_counterexample:
  "findOne (products example_db) 1 ''Main'' = Some rice
   \<and> createReturnTransaction exact no_s2n 0 ((example_return [(1, 2)])\<lparr>currency := JStr ''BOTH''\<rparr>)
       example_db
     = (Inl Caught, example_db\<lparr>products := (products example_db)(1 \<mapsto> rice\<lparr>pieces := Some 12\<rparr>)\<rparr>)
   \<and> findOne (products bulk_db) 5 ''Main'' = Some yam
   \<and> createReturnTransaction exact no_s2n 0 (example_return [(5, 2)]) bulk_db
     = (Inl Caught, bulk_db\<lparr>products := (products bulk_db)(5 \<mapsto> yam\<lparr>pieces := Some 6\<rparr>)\<rparr>)
   \<and> createReturnTransaction exact no_s2n 0 (example_return []) example_db
     = (Inl AtLeastOneProduct, example_db)"
  unfolding yam_return
  by (simp add: createReturnTransaction_def example_return_def findOne_def bulk_db_def yam_def
      example_defs handler_defs)

subsection \<open>Updating the rate\<close>

lemma falsy_ToNumber: "\<not> truthy v \<Longrightarrow> ToNumber s2n v = None \<or> ToNumber s2n v = Some 0"
  by (induction v rule: truthy.induct) auto

lemma updateRate_rejects:
  "fst (updateRate fl s2n now b dbs) = Inl InvalidRate
     \<longleftrightarrow> \<not> (\<exists>r. ToNumber s2n (suppliedRate b) = Some r \<and> 0 < r)"
proof (cases "ToNumber s2n (suppliedRate b)")
  case None
  then show ?thesis by (simp add: updateRate_def)
next
  case (Some r)
  show ?thesis
  proof (cases "truthy (suppliedRate b)")
    case True
    with Some show ?thesis by (auto simp: updateRate_def Let_def)
  next
    case False
    with falsy_ToNumber[OF False, of s2n] Some have "r = 0" by simp
    with Some False show ?thesis by (simp add: updateRate_def)
  qed
qed

lemma updateRate_accepts:
  assumes "ToNumber s2n (suppliedRate b) = Some r" and "0 < r"
  shows "updateRate fl s2n now b dbs
     = (Inr \<lparr>lrdToUsd_of = r, updatedAt = now\<rparr>,
        (saveRate r now dbs)\<lparr>products := updateMany fl r (products (saveRate r now dbs))\<rparr>)"
proof -
  from assms falsy_ToNumber[of "suppliedRate b" s2n] have "truthy (suppliedRate b)" by auto
  with assms show ?thesis by (simp add: updateRate_def Let_def)
qed

text \<open>
  C8, amended. Of a rate that, read as a number, is \<open>NaN\<close> or finite, as every value
  of the model is: \<open>updateRate\<close> rejects the request as an invalid rate exactly when the
  rate it reads from the request is not, read as a number, a finite positive number, and
  a rejected request changes nothing. A value that is a finite positive number when read
  as a number (a finite positive number, and also \<open>true\<close> or a string that converts to
  one) is accepted: the rate and the time are stored, and then the prices of the products
  are recomputed with that rate. Nothing is said of a rate that is infinite.
\<close>

theorem updateRate_spec:
  "(fst (updateRate fl s2n now b dbs) = Inl InvalidRate
      \<longleftrightarrow> \<not> (\<exists>r. ToNumber s2n (suppliedRate b) = Some r \<and> 0 < r))
   \<and> (fst (updateRate fl s2n now b dbs) = Inl InvalidRate \<longrightarrow> snd (updateRate fl s2n now b dbs) = dbs)
   \<and> (\<forall>r. ToNumber s2n (suppliedRate b) = Some r \<and> 0 < r \<longrightarrow>
         updateRate fl s2n now b dbs
           = (Inr \<lparr>lrdToUsd_of = r, updatedAt = now\<rparr>,
              (saveRate r now dbs)\<lparr>products := updateMany fl r (products (saveRate r now dbs))\<rparr>)
         \<and> currencyRates (saveRate r now dbs) = Some \<lparr>lrdToUsd_of = r, updatedAt = now\<rparr>
         \<and> products (saveRate r now dbs) = products dbs)"
proof (intro conjI allI impI)
  show "fst (updateRate fl s2n now b dbs) = Inl InvalidRate
      \<longleftrightarrow> \<not> (\<exists>r. ToNumber s2n (suppliedRate b) = Some r \<and> 0 < r)"
    by (rule updateRate_rejects)
next
  assume "fst (updateRate fl s2n now b dbs) = Inl InvalidRate"
  then show "snd (updateRate fl s2n now b dbs) = dbs"
    by (auto simp: updateRate_def Let_def split: if_splits option.splits)
next
  fix r assume a: "ToNumber s2n (suppliedRate b) = Some r \<and> 0 < r"
  then show "updateRate fl s2n now b dbs
           = (Inr \<lparr>lrdToUsd_of = r, updatedAt = now\<rparr>,
              (saveRate r now dbs)\<lparr>products := updateMany fl r (products (saveRate r now dbs))\<rparr>)"
    using updateRate_accepts by blast
  show "currencyRates (saveRate r now dbs) = Some \<lparr>lrdToUsd_of = r, updatedAt = now\<rparr>"
    by (simp add: saveRate_def)
  show "products (saveRate r now dbs) = products dbs"
    by (simp add: saveRate_def)
qed

text \<open>A rate of 200 is stored; a rate of -3 and a request with no rate are rejected.\<close>

theorem updateRate_spec_witness:
  "fst (updateRate exact no_s2n 7 (empty_body\<lparr>rate := Num 200\<rparr>) example_db)
     = Inr \<lparr>lrdToUsd_of = 200, updatedAt = 7\<rparr>
   \<and> currencyRates (snd (updateRate exact no_s2n 7 (empty_body\<lparr>rate := Num 200\<rparr>) example_db))
     = Some \<lparr>lrdToUsd_of = 200, updatedAt = 7\<rparr>
   \<and> updateRate exact no_s2n 7 (empty_body\<lparr>rate := Num (- 3)\<rparr>) example_db
     = (Inl InvalidRate, example_db)
   \<and> updateRate exact no_s2n 7 empty_body example_db = (Inl InvalidRate, example_db)"
proof -
  have s: "ToNumber no_s2n (suppliedRate (empty_body\<lparr>rate := Num 200\<rparr>)) = Some 200 \<and> (0::real) < 200"
    by (simp add: suppliedRate_def empty_body_def)
  have n: "\<not> (\<exists>r. ToNumber no_s2n (suppliedRate (empty_body\<lparr>rate := Num (- 3)\<rparr>)) = Some r \<and> 0 < r)"
    "\<not> (\<exists>r. ToNumber no_s2n (suppliedRate empty_body) = Some r \<and> 0 < r)"
    by (simp_all add: suppliedRate_def empty_body_def)
  from updateRate_spec[where ?s2n = no_s2n and now = 7 and b = "empty_body\<lparr>rate := Num 200\<rparr>"
      and dbs = example_db and fl = exact] s
  have a: "updateRate exact no_s2n 7 (empty_body\<lparr>rate := Num 200\<rparr>) example_db
           = (Inr \<lparr>lrdToUsd_of = 200, updatedAt = 7\<rparr>,
              (saveRate 200 7 example_db)\<lparr>products := updateMany exact 200 (products (saveRate 200 7 example_db))\<rparr>)"
    by blast
  from updateRate_spec[where ?s2n = no_s2n and now = 7 and b = "empty_body\<lparr>rate := Num (- 3)\<rparr>"
      and dbs = example_db and fl = exact] n(1)
  have b: "updateRate exact no_s2n 7 (empty_body\<lparr>rate := Num (- 3)\<rparr>) example_db = (Inl InvalidRate, example_db)"
    by (metis prod.collapse)
  from updateRate_spec[where ?s2n = no_s2n and now = 7 and b = empty_body
      and dbs = example_db and fl = exact] n(2)
  have c: "updateRate exact no_s2n 7 empty_body example_db = (Inl InvalidRate, example_db)"
    by (metis prod.collapse)
  show ?thesis unfolding a b c by (simp add: saveRate_def)
qed

text \<open>
  C8 as the spec states it fails for the request \<open>{ "rate": true }\<close>: \<open>true\<close> is not a
  number, and the request is accepted with the rate 1.
\<close>

theorem updateRate_spec_counterexample:
  "\<not> spec_finite_positive (suppliedRate (empty_body\<lparr>rate := JBool True\<rparr>))
   \<and> updateRate exact no_s2n 7 (empty_body\<lparr>rate := JBool True\<rparr>) example_db
     = (Inr \<lparr>lrdToUsd_of = 1, updatedAt = 7\<rparr>,
        (saveRate 1 7 example_db)\<lparr>products := updateMany exact 1 (products (saveRate 1 7 example_db))\<rparr>)"
  by (simp add: suppliedRate_def empty_body_def updateRate_def Let_def)

text \<open>
  What the recomputation does to each product: a product with a \<open>priceUSD\<close> gets
  \<open>priceLRD = priceUSD * r\<close>, and \<open>totalLRD = pieces * priceLRD\<close> when \<open>pieces\<close> is
  there and is not zero, both in the arithmetic of the database; its \<open>totalLRD\<close> is left
  as it was when \<open>pieces\<close> is absent or zero. A product without a \<open>priceUSD\<close> is left
  as it was.
\<close>

lemma updateMany_spec:
  "(ps i = Some p \<and> priceUSD p = Some u \<longrightarrow>
      (\<exists>p'. updateMany fl r ps i = Some p' \<and> priceLRD p' = Some (fl (u * r))
         \<and> (\<forall>n. pieces p = Some n \<and> n \<noteq> 0 \<longrightarrow> p_totalLRD p' = Some (fl (n * fl (u * r))))
         \<and> (pieces p = None \<or> pieces p = Some 0 \<longrightarrow> p_totalLRD p' = p_totalLRD p)
         \<and> pieces p' = pieces p \<and> priceUSD p' = priceUSD p \<and> item p' = item p
         \<and> p_store p' = p_store p))
   \<and> (ps i = Some p \<and> priceUSD p = None \<longrightarrow> updateMany fl r ps i = Some p)
   \<and> (ps i = None \<longrightarrow> updateMany fl r ps i = None)"
  by (auto simp: updateMany_def recalcProduct_def Let_def split: option.splits)

text \<open>
  C4, at the input where the code departs from it. A product with 0 pieces has a known
  quantity on hand, so after an update of the rate to 200 its \<open>totalLRD\<close> should be
  \<open>0 * 400 = 0\<close>; the pipeline leaves the 1970 it had.
\<close>

theorem updateRate_zero_stock:
  "map_option (\<lambda>p. (pieces p, priceLRD p, p_totalLRD p))
     (products (snd (updateRate exact no_s2n 7 (empty_body\<lparr>rate := Num 200\<rparr>) salt_db)) 3)
   = Some (Some 0, Some 400, Some 1970)"
  by (simp add: updateRate_def suppliedRate_def empty_body_def salt_db_def salt_def saveRate_def
      updateMany_def recalcProduct_def example_db_def exact_def Let_def)

text \<open>The same product, read field by field: the quantity is known and the total is not its value.\<close>

theorem updateRate_zero_stock_witness:
  "map_option pieces
     (products (snd (updateRate exact no_s2n 7 (empty_body\<lparr>rate := Num 200\<rparr>) salt_db)) 3)
     = Some (Some 0)
   \<and> map_option priceLRD
     (products (snd (updateRate exact no_s2n 7 (empty_body\<lparr>rate := Num 200\<rparr>) salt_db)) 3)
     = Some (Some 400)
   \<and> map_option p_totalLRD
     (products (snd (updateRate exact no_s2n 7 (empty_body\<lparr>rate := Num 200\<rparr>) salt_db)) 3)
     = Some (Some 1970)
   \<and> (0::real) * 400 \<noteq> 1970"
  using updateRate_zero_stock
  by (cases "products (snd (updateRate exact no_s2n 7 (empty_body\<lparr>rate := Num 200\<rparr>) salt_db)) 3")
     simp_all

subsection \<open>The sales report\<close>

lemma clampBucket_nonneg:
  "0 \<le> b_totalLRD (clampBucket b) \<and> 0 \<le> b_totalUSD (clampBucket b) \<and> 0 \<le> b_items (clampBucket b)"
  by (simp add: clampBucket_def)

lemma clampProduct_nonneg:
  "0 \<le> pt_totalLRD (clampProduct e) \<and> 0 \<le> pt_totalUSD (clampProduct e)"
  by (simp add: clampProduct_def)

lemma clampOverall_nonneg:
  "0 \<le> o_totalLRD (clampOverall ov) \<and> 0 \<le> o_totalUSD (clampOverall ov)
   \<and> 0 \<le> totalItems (clampOverall ov)"
  by (simp add: clampOverall_def)

lemma clampRollups_nonneg:
  "(\<forall>(k, b) \<in> set (dailyTotals (clampRollups s)).
       0 \<le> b_totalLRD b \<and> 0 \<le> b_totalUSD b \<and> 0 \<le> b_items b)
   \<and> (\<forall>(k, b) \<in> set (storeTotals (clampRollups s)).
       0 \<le> b_totalLRD b \<and> 0 \<le> b_totalUSD b \<and> 0 \<le> b_items b)
   \<and> (\<forall>(k, e) \<in> set (productTotals (clampRollups s)).
       0 \<le> pt_totalLRD e \<and> 0 \<le> pt_totalUSD e)
   \<and> 0 \<le> o_totalLRD (overallTotals (clampRollups s))
   \<and> 0 \<le> o_totalUSD (overallTotals (clampRollups s))
   \<and> 0 \<le> totalItems (overallTotals (clampRollups s))"
  using clampBucket_nonneg clampProduct_nonneg clampOverall_nonneg
  by (auto simp: clampRollups_def)

lemma set_objectValues: "set (objectValues d) = set d"
  by (auto simp: objectValues_def)

lemmas report_defs = getSalesReport_def findByType_def processSale_def processReturn_def
  saleItem_def returnItem_def salePayment_def init_key_def init_name_def protoKeys_def
  modify_def add_if_def sub_if_def truthy_num_def dateKey_def productKey_def zero_product_def
  zero_bucket_def zero_overall_def clampRollups_def clampBucket_def clampProduct_def
  clampOverall_def objectValues_def is_array_index_def is_digit_def exact_def Let_def

lemma example_report:
  "\<exists>rep. getSalesReport exact 0 86399999 ''Main'' False day_db = Inr rep
     \<and> map (\<lambda>(k, b). (k, b_totalLRD b, b_totalUSD b, b_items b, b_transactions b, b_returns b))
         (dailyTotalsArray rep) = [(0, 0, 0, 0, 1, 1)]
     \<and> map (\<lambda>(k, b). (k, b_totalLRD b, b_totalUSD b, b_items b, b_transactions b, b_returns b))
         (storeTotalsArray rep) = [(''Main'', 0, 0, 0, 1, 1)]
     \<and> o_totalLRD (summary rep) = 0"
  by (simp add: report_defs day_db_def example_db_def day_sale_def day_return_def rice_item_def)

text \<open>
  C6, amended. In every report of \<open>getSalesReport\<close>, \<open>totalLRD\<close>, \<open>totalUSD\<close> and the
  count of items are at least zero in the summary, in every daily total and in every
  store total, and \<open>totalLRD\<close> and \<open>totalUSD\<close> are at least zero in every product total
  (the amounts being finite numbers, as every number of the model is).
\<close>

theorem report_rollups_nonneg:
  assumes "getSalesReport fl startDate endDate st allStores dbs = Inr rep"
  shows "0 \<le> o_totalLRD (summary rep) \<and> 0 \<le> o_totalUSD (summary rep)
       \<and> 0 \<le> totalItems (summary rep)
       \<and> (\<forall>(k, b) \<in> set (dailyTotalsArray rep).
             0 \<le> b_totalLRD b \<and> 0 \<le> b_totalUSD b \<and> 0 \<le> b_items b)
       \<and> (\<forall>(k, b) \<in> set (storeTotalsArray rep).
             0 \<le> b_totalLRD b \<and> 0 \<le> b_totalUSD b \<and> 0 \<le> b_items b)
       \<and> (\<forall>e \<in> set (productTotalsArray rep). 0 \<le> pt_totalLRD e \<and> 0 \<le> pt_totalUSD e)"
proof -
  define s where "s = clampRollups
                   (foldl (processReturn fl)
                      (foldl (processSale fl)
                         \<lparr>dailyTotals = [], productTotals = [], storeTotals = [],
                          overallTotals = zero_overall\<rparr>
                         (findByType startDate endDate st allStores {Sale} (transactions dbs)))
                      (findByType startDate endDate st allStores {Return} (transactions dbs)))"
  from assms have rep: "rep = \<lparr>summary = (overallTotals s)\<lparr>storeCount := length (storeTotals s)\<rparr>,
                 dailyTotalsArray = sort_key (\<lambda>(k, b). - k) (dailyTotals s),
                 productTotalsArray = sort_key (\<lambda>e. - quantitySold e) (map snd (productTotals s)),
                 storeTotalsArray =
                   sort_key (\<lambda>(k, b). - int (b_transactions b)) (objectValues (storeTotals s)),
                 recentTransactions =
                   take 50 (findByType startDate endDate st allStores {Sale, Return}
                              (transactions dbs))\<rparr>"
    by (simp add: getSalesReport_def s_def Let_def split: if_splits)
  have c: "(\<forall>(k, b) \<in> set (dailyTotals s).
       0 \<le> b_totalLRD b \<and> 0 \<le> b_totalUSD b \<and> 0 \<le> b_items b)
   \<and> (\<forall>(k, b) \<in> set (storeTotals s).
       0 \<le> b_totalLRD b \<and> 0 \<le> b_totalUSD b \<and> 0 \<le> b_items b)
   \<and> (\<forall>(k, e) \<in> set (productTotals s).
       0 \<le> pt_totalLRD e \<and> 0 \<le> pt_totalUSD e)
   \<and> 0 \<le> o_totalLRD (overallTotals s)
   \<and> 0 \<le> o_totalUSD (overallTotals s)
   \<and> 0 \<le> totalItems (overallTotals s)"
    unfolding s_def by (rule clampRollups_nonneg)
  then have "\<forall>e \<in> set (map snd (productTotals s)). 0 \<le> pt_totalLRD e \<and> 0 \<le> pt_totalUSD e"
    by auto
  with c show ?thesis unfolding rep by (simp add: set_objectValues)
qed

text \<open>
  The day of the example: 985 LRD sold and 1970 LRD returned give a daily total and an
  overall total of 0, not of -985.
\<close>

theorem report_rollups_nonneg_witness:
  "\<not> isl (getSalesReport exact 0 86399999 ''Main'' False day_db)
   \<and> map (\<lambda>(k, b). (k, b_totalLRD b, b_totalUSD b, b_items b, b_transactions b, b_returns b))
        (dailyTotalsArray (projr (getSalesReport exact 0 86399999 ''Main'' False day_db)))
      = [(0, 0, 0, 0, 1, 1)]
   \<and> o_totalLRD (summary (projr (getSalesReport exact 0 86399999 ''Main'' False day_db))) = 0
   \<and> the (t_totalLRD day_sale) - the (t_totalLRD day_return) = - 985"
proof -
  from example_report obtain rep where
    r: "getSalesReport exact 0 86399999 ''Main'' False day_db = Inr rep"
    and d: "map (\<lambda>(k, b). (k, b_totalLRD b, b_totalUSD b, b_items b, b_transactions b, b_returns b))
         (dailyTotalsArray rep) = [(0, 0, 0, 0, 1, 1)]"
    and o: "o_totalLRD (summary rep) = 0" by (elim exE conjE)
  from report_rollups_nonneg[OF r] d o show ?thesis
    unfolding r by (simp add: day_sale_def day_return_def)
qed

lemma negative_sale_stored:
  "createTransaction exact no_s2n 1000 negative_sale example_db
   = (Inr \<lparr>t_id = 100, t_date = 1000, t_type = Sale, t_store = ''Main'', t_currency = LRD,
            t_productsSold = [rice_item (- 5)], t_amountReceivedLRD = Some (- 1),
            t_amountReceivedUSD = Some 0, t_change = Some 0, t_changeCurrency = LRD,
            t_totalLRD = Some (- 4925), t_totalUSD = Some 0, t_returnReason = None,
            t_originalTransaction = None\<rparr>,
      example_db\<lparr>products := (products example_db)(1 \<mapsto> rice\<lparr>pieces := Some 15\<rparr>),
                 transactions :=
                   [\<lparr>t_id = 100, t_date = 1000, t_type = Sale, t_store = ''Main'',
                      t_currency = LRD, t_productsSold = [rice_item (- 5)],
                      t_amountReceivedLRD = Some (- 1), t_amountReceivedUSD = Some 0,
                      t_change = Some 0, t_changeCurrency = LRD, t_totalLRD = Some (- 4925),
                      t_totalUSD = Some 0, t_returnReason = None,
                      t_originalTransaction = None\<rparr>],
                 next_id := 101\<rparr>)"
  by (simp add: createTransaction_def negative_sale_def rice_item_def example_defs handler_defs)

text \<open>
  C6 as the spec states it fails for the report of a day on which the store sold -5
  pieces, a sale that \<open>createTransaction\<close> accepts: the product total reports -5 pieces
  sold, and the summary -1 LRD received.
\<close>

theorem report_rollups_nonneg_counterexample:
  "\<not> isl (fst (createTransaction exact no_s2n 1000 negative_sale example_db))
   \<and> \<not> isl (getSalesReport exact 0 86399999 ''Main'' False
              (snd (createTransaction exact no_s2n 1000 negative_sale example_db)))
   \<and> map (\<lambda>e. (pt_name e, quantitySold e))
       (productTotalsArray (projr (getSalesReport exact 0 86399999 ''Main'' False
          (snd (createTransaction exact no_s2n 1000 negative_sale example_db)))))
     = [(''rice'', - 5)]
   \<and> totalAmountReceivedLRD (summary (projr (getSalesReport exact 0 86399999 ''Main'' False
          (snd (createTransaction exact no_s2n 1000 negative_sale example_db)))))
     = - 1"
  unfolding negative_sale_stored
  by (simp add: report_defs example_db_def rice_item_def)

end
